theory Spec2Isabelle
  imports Complex_Main "HOL-Library.AList"
begin

section \<open>Arrays, references and Python's built-ins\<close>

text \<open>
  The program is \<^verbatim>\<open>tmfc_simulation/wilson_cowan_task_simulation.py\<close>: the class
  \<^verbatim>\<open>WCTaskSim\<close> (the block scheduler and the streaming driver) and the class
  \<^verbatim>\<open>HRF\<close> (the resampler and the hemodynamic convolution stage).

  An activity array of numpy shape \<open>(N, T)\<close> (regions by time) is held as the list of
  its \<open>T\<close> columns, each a vector of \<open>N\<close> region values: every operation of the
  program on such an array works along the time axis (\<^verbatim>\<open>a[:, i::k]\<close>,
  \<^verbatim>\<open>np.hstack\<close>, \<^verbatim>\<open>a.shape[1]\<close>), which is the list itself here. A coupling
  matrix is the list of its rows. Floating-point numbers are read as real numbers.

  Coupling matrices are numpy arrays that the program shares by reference and
  mutates in place, so they live in a store and the program holds their
  addresses.
\<close>

type_synonym vec = "real list"
type_synonym series = "vec list"
type_synonym cmatrix = "vec list"
type_synonym ref = nat
type_synonym store = "ref \<Rightarrow> cmatrix"

datatype error =
    AssertionError string
  | ValueError string
  | ZeroDivisionError
  | IndexError
  | KeyError string
  | AttributeError string

text \<open>Sequencing of steps that may raise: the first exception ends the run.\<close>

definition bind_res :: "error + 'a \<Rightarrow> ('a \<Rightarrow> error + 'b) \<Rightarrow> error + 'b" where
  "bind_res r f = (case r of Inl e \<Rightarrow> Inl e | Inr x \<Rightarrow> f x)"

text \<open>\<^verbatim>\<open>round(x)\<close> of Python 3 rounds a tie to the even neighbour.\<close>

definition py_round :: "real \<Rightarrow> int" where
  "py_round x =
     (let f = \<lfloor>x\<rfloor>; d = x - of_int f
      in if d < 1 / 2 then f
         else if 1 / 2 < d then f + 1
         else if even f then f else f + 1)"

text \<open>\<^verbatim>\<open>int(x)\<close> truncates towards zero.\<close>

definition py_int :: "real \<Rightarrow> int" where
  "py_int x = (if 0 \<le> x then \<lfloor>x\<rfloor> else \<lceil>x\<rceil>)"

text \<open>\<^verbatim>\<open>a / b\<close> and \<^verbatim>\<open>a % b\<close> on floats raise on a zero divisor; the
  remainder takes the sign of the divisor.\<close>

definition py_div :: "real \<Rightarrow> real \<Rightarrow> error + real" where
  "py_div a b = (if b = 0 then Inl ZeroDivisionError else Inr (a / b))"

definition py_fmod :: "real \<Rightarrow> real \<Rightarrow> error + real" where
  "py_fmod a b =
     (if b = 0 then Inl ZeroDivisionError else Inr (a - b * of_int \<lfloor>a / b\<rfloor>))"

text \<open>\<^verbatim>\<open>round(x, 3)\<close>.\<close>

definition round3 :: "real \<Rightarrow> real" where
  "round3 x = of_int (py_round (x * 1000)) / 1000"

text \<open>\<^verbatim>\<open>xs[i]\<close> for \<open>i \<ge> 0\<close>, \<^verbatim>\<open>xs[-1]\<close> and \<^verbatim>\<open>d[k]\<close>.\<close>

definition py_index :: "'a list \<Rightarrow> nat \<Rightarrow> error + 'a" where
  "py_index xs i = (if i < length xs then Inr (xs ! i) else Inl IndexError)"

definition py_last :: "'a list \<Rightarrow> error + 'a" where
  "py_last xs = (case xs of [] \<Rightarrow> Inl IndexError | _ # _ \<Rightarrow> Inr (last xs))"

definition py_getitem :: "(string \<times> 'a) list \<Rightarrow> string \<Rightarrow> error + 'a" where
  "py_getitem d k = (case map_of d k of None \<Rightarrow> Inl (KeyError k) | Some v \<Rightarrow> Inr v)"

text \<open>
  \<^verbatim>\<open>xs[start::step]\<close>: Python clamps \<open>start\<close> into the sequence (a negative
  \<open>start\<close> counts from the end), walks upwards for a positive step and downwards
  to index 0 for a negative one, and raises on a zero step.
\<close>

definition py_slice_from :: "int \<Rightarrow> int \<Rightarrow> 'a list \<Rightarrow> error + 'a list" where
  "py_slice_from start step xs =
     (let n = int (length xs)
      in if step = 0 then Inl (ValueError ''slice step cannot be zero'')
         else if 0 < step then
           (let b = (if start < 0 then max (start + n) 0 else min start n)
            in Inr (map (\<lambda>j. xs ! nat (b + int j * step))
                      [0 ..< nat ((n - b + step - 1) div step)]))
         else
           (let b = (if start < 0 then max (start + n) (- 1) else min start (n - 1))
            in Inr (map (\<lambda>j. xs ! nat (b + int j * step))
                      [0 ..< nat ((b - step) div (- step))])))"

text \<open>Elementwise arithmetic of numpy on arrays of one shape, and \<^verbatim>\<open>C @ E\<close>.\<close>

definition vec_add :: "vec \<Rightarrow> vec \<Rightarrow> vec" where
  "vec_add u v = map2 (+) u v"

definition series_scale :: "real \<Rightarrow> series \<Rightarrow> series" where
  "series_scale c a = map (map ((*) c)) a"

definition series_add :: "series \<Rightarrow> series \<Rightarrow> series" where
  "series_add a b = map2 vec_add a b"

definition mat_vec :: "cmatrix \<Rightarrow> vec \<Rightarrow> vec" where
  "mat_vec c e = map (\<lambda>row. sum_list (map2 (*) row e)) c"

definition matmul :: "cmatrix \<Rightarrow> series \<Rightarrow> series" where
  "matmul c a = map (mat_vec c) a"

text \<open>\<^verbatim>\<open>np.fill_diagonal(m, 0)\<close> on a two-dimensional array.\<close>

definition fill_diagonal :: "cmatrix \<Rightarrow> real \<Rightarrow> cmatrix" where
  "fill_diagonal m v = map (\<lambda>(i, row). row[i := v]) (zip [0 ..< length m] m)"

text \<open>\<^verbatim>\<open>a.shape[0] == n\<close>: every column has \<open>n\<close> entries.\<close>

definition shape0_is :: "nat \<Rightarrow> series \<Rightarrow> bool" where
  "shape0_is n a = list_all (\<lambda>c. length c = n) a"

section \<open>The resampler and the hemodynamic convolution stage (class HRF)\<close>

record HRF =
  hrf_N :: nat
  hrf_dt :: real
  hrf_TR :: real
  hrf_normalize_input :: bool
  hrf_normalize_max :: real
  hrf_fix :: bool
  hrf_samplingRate_NDt :: int
  hrf_t_BOLD :: "real list"
  hrf_BOLD :: series
  hrf_BOLD_chunk :: series
  hrf_idxLastT :: int
  hrf_X_BOLD :: vec
  hrf_F_BOLD :: vec
  hrf_Q_BOLD :: vec
  hrf_V_BOLD :: vec

text \<open>\<^verbatim>\<open>HRF.__init__\<close>.\<close>

definition HRF_init :: "nat \<Rightarrow> real \<Rightarrow> real \<Rightarrow> bool \<Rightarrow> real \<Rightarrow> bool \<Rightarrow> error + HRF" where
  "HRF_init n dt tr norm_input norm_max fix =
     bind_res (py_div (tr * 1000) dt) (\<lambda>q.
       Inr \<lparr> hrf_N = n, hrf_dt = dt, hrf_TR = tr, hrf_normalize_input = norm_input,
             hrf_normalize_max = norm_max, hrf_fix = fix,
             hrf_samplingRate_NDt = py_round q,
             hrf_t_BOLD = [], hrf_BOLD = [], hrf_BOLD_chunk = [],
             hrf_idxLastT = 0,
             hrf_X_BOLD = replicate n 0, hrf_F_BOLD = replicate n 1,
             hrf_Q_BOLD = replicate n 1, hrf_V_BOLD = replicate n 1 \<rparr>)"

text \<open>
  The subsampling phase that the resampler and the driver both write inline:
  \<^verbatim>\<open>rate - np.mod(idxLastT - 1, rate)\<close>.
\<close>

definition phase_start :: "int \<Rightarrow> int \<Rightarrow> int" where
  "phase_start rate idxLastT = rate - (idxLastT - 1) mod rate"

text \<open>
  \<^verbatim>\<open>HRF.resample_to_TR(signal, idxLastT)\<close>: returns the time stamps and the
  selected columns.
\<close>

definition resample_to_TR :: "HRF \<Rightarrow> 'a list \<Rightarrow> int \<Rightarrow> error + (real list \<times> 'a list)" where
  "resample_to_TR h signal idxLastT =
     (let rate = hrf_samplingRate_NDt h
      in bind_res (py_slice_from (phase_start rate idxLastT) rate signal) (\<lambda>signal_resampled.
         let t_new_idx = map (\<lambda>j. idxLastT + int j) [0 ..< length signal]
         in bind_res (py_slice_from (phase_start rate idxLastT) rate t_new_idx) (\<lambda>idx.
              Inr (map (\<lambda>i. of_int i * hrf_dt h) idx, signal_resampled))))"

text \<open>
  \<^verbatim>\<open>simulateBOLD\<close> is the hemodynamic state integrator of
  \<^verbatim>\<open>boldIntegration\<close>; the stage takes it as a parameter: from the activity, the
  step in seconds, the four state vectors and the \<open>fix\<close> flag it returns the BOLD
  chunk and the new state vectors.
\<close>

type_synonym integrator =
  "series \<Rightarrow> real \<Rightarrow> vec \<Rightarrow> vec \<Rightarrow> vec \<Rightarrow> vec \<Rightarrow> bool \<Rightarrow> series \<times> vec \<times> vec \<times> vec \<times> vec"

text \<open>\<^verbatim>\<open>HRF.bw_convolve(activity, append)\<close>.\<close>

definition bw_convolve :: "integrator \<Rightarrow> HRF \<Rightarrow> series \<Rightarrow> bool \<Rightarrow> error + HRF" where
  "bw_convolve simulateBOLD h activity0 append_flag =
     (if \<not> shape0_is (hrf_N h) activity0
      then Inl (AssertionError ''Input shape must be equal to Number of activations to times'')
      else
        let activity = (if hrf_normalize_input h
                        then series_scale (hrf_normalize_max h) activity0 else activity0)
        in case simulateBOLD activity (hrf_dt h * (1 / 1000))
                  (hrf_X_BOLD h) (hrf_F_BOLD h) (hrf_Q_BOLD h) (hrf_V_BOLD h) (hrf_fix h) of
             (BOLD_chunk, x, f, q, v) \<Rightarrow>
               bind_res (resample_to_TR h BOLD_chunk (hrf_idxLastT h))
                 (\<lambda>(t_BOLD_resampled, BOLD_resampled).
                    let keep = (hrf_BOLD h \<noteq> [] \<and> append_flag)
                    in Inr (h\<lparr> hrf_X_BOLD := x, hrf_F_BOLD := f, hrf_Q_BOLD := q, hrf_V_BOLD := v,
                              hrf_t_BOLD := (if keep then hrf_t_BOLD h @ t_BOLD_resampled
                                             else t_BOLD_resampled),
                              hrf_BOLD := (if keep then hrf_BOLD h @ BOLD_resampled
                                           else BOLD_resampled),
                              hrf_BOLD_chunk := BOLD_resampled,
                              hrf_idxLastT := hrf_idxLastT h + int (length activity) \<rparr>)))"


section \<open>The neural mass model handle\<close>

text \<open>
  \<^verbatim>\<open>self.wc\<close> is a \<^verbatim>\<open>WCModel\<close> of the neurolib library, the external
  neural mass model. The driver touches these parts of it: the parameter
  dictionary \<^verbatim>\<open>params\<close> (the entries it reads or writes are fields below, the
  other numeric entries it writes are kept in \<open>p_other\<close>), the attribute
  \<^verbatim>\<open>Cmat\<close>, the raw output attributes \<^verbatim>\<open>exc\<close>, \<^verbatim>\<open>inh\<close> and \<^verbatim>\<open>t\<close>, and the
  dictionaries \<^verbatim>\<open>outputs\<close> (read by \<^verbatim>\<open>wc['exc']\<close>) and \<^verbatim>\<open>state\<close>. Everything
  else the model keeps is \<open>wc_internal\<close>.
\<close>

record wc_params =
  p_Cmat :: ref
  p_duration :: real
  p_dt :: real
  p_N :: nat
  p_c_excexc :: real
  p_c_excinh :: real
  p_c_inhexc :: real
  p_c_inhinh :: real
  p_other :: "(string \<times> real) list"

record 'm WCModel =
  wc_params :: wc_params
  wc_Cmat :: ref
  wc_exc :: series
  wc_inh :: series
  wc_t :: "real list"
  wc_outputs :: "(string \<times> series) list"
  wc_state :: "(string \<times> series) list"
  wc_internal :: 'm

text \<open>
  \<^verbatim>\<open>wc.run(append_outputs=..., bold=..., continue_run=..., chunkwise=...)\<close> is the
  model's integrator, a parameter of the driver: it reads the coupling arrays
  through the store and returns the handle it has advanced.
\<close>

record run_args =
  r_append_outputs :: bool
  r_bold :: bool
  r_continue_run :: bool
  r_chunkwise :: bool

type_synonym 'm wc_run = "run_args \<Rightarrow> store \<Rightarrow> 'm WCModel \<Rightarrow> 'm WCModel"

section \<open>The driver (class WCTaskSim)\<close>

record activity =
  act_exc_series :: "series option"
  act_inh_series :: "series option"
  act_sa_series :: "series option"
  act_sampling_rate :: real
  act_idx_last_t :: int
  act_t :: "real list option"

text \<open>
  The attributes of \<^verbatim>\<open>self\<close> that the scheduler and the driver use, and the
  store of the coupling arrays. An attribute that starts as \<^verbatim>\<open>None\<close>, or that
  \<^verbatim>\<open>__init__\<close> does not create (\<^verbatim>\<open>input_rest\<close>, \<^verbatim>\<open>fix_bold\<close>), is an option.
\<close>

record 'm WCTaskSim =
  sim_store :: store
  sim_Dmat :: ref
  sim_hrf :: "HRF option"
  sim_BOLD :: "series option"
  sim_normalize_max :: "real option"
  sim_t_BOLD :: "real list option"
  sim_output_activation :: "string option"
  sim_rest_before :: bool
  sim_Wij_rest :: ref
  sim_wc :: "'m WCModel"
  sim_Wij_task_dict :: "(string \<times> ref) list"
  sim_num_tasks :: nat
  sim_task_name_list :: "string list"
  sim_onset_time_list :: "real list"
  sim_duration_list :: "real list"
  sim_append_outputs :: bool
  sim_chunkwise :: bool
  sim_activity :: activity
  sim_bold :: bool
  sim_bold_input_ready :: bool
  sim_TR :: "real option"
  sim_last_duration :: real
  sim_first_duration :: real
  sim_time_idxs_dict :: "(string \<times> (real \<times> real) list) list"
  sim_num_modules :: nat
  sim_fix_bold :: "bool option"
  sim_input_rest :: "series option"

subsection \<open>Construction and validation of the design\<close>

datatype duration_arg = DurationList "real list" | DurationScalar real

record init_args =
  a_Wij_task_dict :: "(string \<times> ref) list"
  a_Wij_rest :: ref
  a_D :: ref
  a_onset_time_list :: "real list option"
  a_task_name_list :: "string list option"
  a_duration_list :: duration_arg
  a_rest_before :: bool
  a_first_duration :: real
  a_last_duration :: real
  a_append_outputs :: bool
  a_bold :: bool
  a_chunkwise :: bool
  a_num_modules :: nat
  a_act_sampling_rate :: real
  a_exc_ext :: real
  a_K_gl :: real
  a_sigma_ou :: real
  a_kwargs :: "(string \<times> real) list"

text \<open>\<^verbatim>\<open>np.diff\<close> and \<^verbatim>\<open>dict.setdefault\<close>.\<close>

definition np_diff :: "real list \<Rightarrow> real list" where
  "np_diff xs = map2 (\<lambda>a b. b - a) xs (tl xs)"

definition setdefault :: "string \<Rightarrow> real \<Rightarrow> (string \<times> real) list \<Rightarrow> (string \<times> real) list" where
  "setdefault k v d = (case map_of d k of None \<Rightarrow> d @ [(k, v)] | Some _ \<Rightarrow> d)"

definition kw_defaults :: "(string \<times> real) list" where
  "kw_defaults =
     [(''inh_ext'', 0), (''tau_ou'', 5), (''a_exc'', 3 / 2), (''a_inh'', 3 / 2),
      (''c_excexc'', 16), (''c_excinh'', 15), (''c_inhexc'', 12), (''c_inhinh'', 3),
      (''mu_exc'', 3), (''mu_inh'', 3), (''tau_exc'', 5 / 2), (''tau_inh'', 15 / 4),
      (''signalV'', 10)]"

text \<open>The entries \<^verbatim>\<open>self.kwargs[k]\<close> for the keys \<open>k\<close> of a list, in order.\<close>

fun kwargs_entries :: "(string \<times> real) list \<Rightarrow> string list \<Rightarrow> error + (string \<times> real) list" where
  "kwargs_entries kwargs [] = Inr []"
| "kwargs_entries kwargs (k # ks) =
     bind_res (py_getitem kwargs k) (\<lambda>v.
     bind_res (kwargs_entries kwargs ks) (\<lambda>rest. Inr ((k, v) # rest)))"

text \<open>\<^verbatim>\<open>init_wc_model\<close>, given the keyword dictionary with its defaults filled in.\<close>

definition init_wc_model ::
  "real list \<Rightarrow> real \<Rightarrow> real \<Rightarrow> real \<Rightarrow> (string \<times> real) list \<Rightarrow> 'm WCModel \<Rightarrow> error + 'm WCModel" where
  "init_wc_model durations exc_ext K_gl sigma_ou kwargs w =
     bind_res (py_index durations 0) (\<lambda>d0.
     bind_res (kwargs_entries kwargs
                 [''inh_ext'', ''tau_ou'', ''a_exc'', ''a_inh'', ''mu_exc'', ''mu_inh'',
                  ''tau_exc'', ''tau_inh'', ''signalV'']) (\<lambda>common.
     bind_res (py_getitem kwargs ''c_excexc'') (\<lambda>ee.
     bind_res (py_getitem kwargs ''c_excinh'') (\<lambda>ei.
     bind_res (py_getitem kwargs ''c_inhinh'') (\<lambda>ii.
     bind_res (py_getitem kwargs ''c_inhexc'') (\<lambda>ie.
       Inr (w\<lparr> wc_params := (wc_params w)
              \<lparr> p_duration := d0 * 1000,
                p_c_excexc := ee, p_c_excinh := ei, p_c_inhexc := ie, p_c_inhinh := ii,
                p_other :=
                  fold (\<lambda>(k, v). AList.update k v)
                    ([(''exc_ext'', exc_ext), (''K_gl'', K_gl), (''sigma_ou'', sigma_ou)] @ common)
                    (p_other (wc_params w)) \<rparr> \<rparr>)))))))"

text \<open>
  \<^verbatim>\<open>WCTaskSim.__init__\<close>. \<^verbatim>\<open>WCModel(Cmat=Wij_rest, Dmat=D)\<close> is the constructor of
  the external model, the parameter \<open>new_model\<close>; the model object keeps its
  argument \<^verbatim>\<open>Cmat\<close> as the attribute of that name. A failed \<^verbatim>\<open>assert\<close> is the
  error the design calls \<^verbatim>\<open>DesignError\<close>.
\<close>

definition WCTaskSim_init ::
  "(store \<Rightarrow> ref \<Rightarrow> ref \<Rightarrow> 'm WCModel) \<Rightarrow> store \<Rightarrow> init_args \<Rightarrow> error + 'm WCTaskSim" where
  "WCTaskSim_init new_model st a =
     (let w = (new_model st (a_Wij_rest a) (a_D a))\<lparr> wc_Cmat := a_Wij_rest a \<rparr>;
          keys = map fst (a_Wij_task_dict a);
          task_name_list = (case a_task_name_list a of None \<Rightarrow> keys | Some l \<Rightarrow> l)
      in if \<not> list_all (\<lambda>task_name. task_name \<in> set keys) task_name_list
         then Inl (AssertionError ''Name in task names not from the dict'')
         else
           let onset_time_list =
                 (case a_onset_time_list a of
                    None \<Rightarrow> map real [0 ..< length task_name_list]
                  | Some l \<Rightarrow> l)
           in if length task_name_list \<noteq> length onset_time_list
              then Inl (AssertionError ''Number of tasks should be equal to number of onset times'')
              else if 1 < length onset_time_list
                      \<and> \<not> list_ex (\<lambda>d. 0 < d) (np_diff onset_time_list)
              then Inl (AssertionError ''Next onset time should be more than previous '')
              else
                bind_res
                  (case a_duration_list a of
                     DurationList l \<Rightarrow>
                       if length l \<noteq> length onset_time_list
                       then Inl (AssertionError
                              ''Lenght of duration list should be equal to onset_time list'')
                       else Inr l
                   | DurationScalar d \<Rightarrow> Inr (replicate (length onset_time_list) d))
                  (\<lambda>duration_list.
                     let kwargs = fold (\<lambda>(k, v). setdefault k v) kw_defaults (a_kwargs a)
                     in bind_res
                          (init_wc_model duration_list (a_exc_ext a) (a_K_gl a) (a_sigma_ou a)
                             kwargs w)
                          (\<lambda>w'.
                             Inr \<lparr> sim_store = st, sim_Dmat = a_D a, sim_hrf = None,
                                   sim_BOLD = None, sim_normalize_max = None, sim_t_BOLD = None,
                                   sim_output_activation = None,
                                   sim_rest_before = a_rest_before a,
                                   sim_Wij_rest = a_Wij_rest a, sim_wc = w',
                                   sim_Wij_task_dict = a_Wij_task_dict a,
                                   sim_num_tasks = length keys,
                                   sim_task_name_list = task_name_list,
                                   sim_onset_time_list = onset_time_list,
                                   sim_duration_list = duration_list,
                                   sim_append_outputs = a_append_outputs a,
                                   sim_chunkwise = a_chunkwise a,
                                   sim_activity =
                                     \<lparr> act_exc_series = None, act_inh_series = None,
                                       act_sa_series = None,
                                       act_sampling_rate = a_act_sampling_rate a,
                                       act_idx_last_t = 0, act_t = None \<rparr>,
                                   sim_bold = a_bold a, sim_bold_input_ready = False,
                                   sim_TR = None,
                                   sim_last_duration = a_last_duration a,
                                   sim_first_duration = a_first_duration a,
                                   sim_time_idxs_dict =
                                     fold (\<lambda>key. AList.update key []) keys [(''Rest'', [])],
                                   sim_num_modules = a_num_modules a,
                                   sim_fix_bold = None, sim_input_rest = None \<rparr>)))"

subsection \<open>Synaptic activity\<close>

text \<open>
  \<^verbatim>\<open>generate_neuronal_oscill\<close>:
  \<^verbatim>\<open>ee * exc + ei * exc + ie * inh + ii * inh + self.wc.Cmat @ exc\<close>.
  The coupling array is the one the attribute \<^verbatim>\<open>wc.Cmat\<close> refers to.
\<close>

definition generate_neuronal_oscill :: "'m WCTaskSim \<Rightarrow> series" where
  "generate_neuronal_oscill s =
     (let w = sim_wc s;
          ee = p_c_excexc (wc_params w); ei = p_c_excinh (wc_params w);
          ie = p_c_inhexc (wc_params w); ii = p_c_inhinh (wc_params w);
          exc = wc_exc w; inh = wc_inh w
      in series_add
           (series_add
              (series_add (series_add (series_scale ee exc) (series_scale ei exc))
                 (series_scale ie inh))
              (series_scale ii inh))
           (matmul (sim_store s (wc_Cmat w)) exc))"

subsection \<open>One block\<close>

text \<open>
  \<^verbatim>\<open>np.hstack([old, new])\<close> for an accumulated series that may still be
  \<^verbatim>\<open>None\<close>, and lines 307 to 354 of \<^verbatim>\<open>_generate_single_block\<close>: the new raw
  output is subsampled at the phase of the running offset \<^verbatim>\<open>idx_last_t\<close> and
  appended to the accumulated coarse series and time stamps.
\<close>

definition hstack_opt :: "'a list option \<Rightarrow> 'a list \<Rightarrow> error + 'a list" where
  "hstack_opt old new =
     (case old of
        None \<Rightarrow> Inl (ValueError ''hstack of None and an array'')
      | Some xs \<Rightarrow> Inr (xs @ new))"

definition save_activity :: "'m WCTaskSim \<Rightarrow> real \<Rightarrow> bool \<Rightarrow> error + 'm WCTaskSim" where
  "save_activity s a_s_rate syn_act =
     (let act = sim_activity s; w = sim_wc s;
          idx_last_t = act_idx_last_t act;
          dt = p_dt (wc_params w)
      in bind_res (py_div (1000 * a_s_rate) dt) (\<lambda>q.
         let sampling_rate_dt = py_round q;
             start = phase_start sampling_rate_dt idx_last_t
         in bind_res (py_slice_from start sampling_rate_dt (wc_exc w)) (\<lambda>new_exc_activity.
            bind_res (py_slice_from start sampling_rate_dt (wc_inh w)) (\<lambda>new_inh_activity.
            bind_res (if syn_act
                      then py_slice_from start sampling_rate_dt (generate_neuronal_oscill s)
                      else Inr []) (\<lambda>new_sa_activity.
            bind_res
              (case act_exc_series act of
                 None \<Rightarrow>
                   Inr (act\<lparr> act_sampling_rate := a_s_rate,
                             act_exc_series := Some new_exc_activity,
                             act_inh_series := Some new_inh_activity,
                             act_sa_series := (if syn_act then Some new_sa_activity
                                               else act_sa_series act) \<rparr>)
               | Some exc_series \<Rightarrow>
                   bind_res (hstack_opt (act_inh_series act) new_inh_activity) (\<lambda>inh_series.
                   bind_res (if syn_act
                             then bind_res (hstack_opt (act_sa_series act) new_sa_activity)
                                    (\<lambda>sa. Inr (Some sa))
                             else Inr (act_sa_series act)) (\<lambda>sa_series.
                     Inr (act\<lparr> act_sampling_rate := a_s_rate,
                               act_exc_series := Some (exc_series @ new_exc_activity),
                               act_inh_series := Some inh_series,
                               act_sa_series := sa_series \<rparr>)))) (\<lambda>act1.
            let new_idx_t = map (\<lambda>j. idx_last_t + int j) [0 ..< length (wc_exc w)]
            in bind_res (py_slice_from start sampling_rate_dt new_idx_t) (\<lambda>idx.
               let t_activity = map (\<lambda>i. dt * of_int i) idx
               in Inr (s\<lparr> sim_activity := act1
                         \<lparr> act_t := (case act_t act1 of
                                       None \<Rightarrow> Some t_activity
                                     | Some t \<Rightarrow> Some (t @ t_activity)),
                           act_idx_last_t := idx_last_t + int (length (wc_exc w)) \<rparr> \<rparr>))))))))"

text \<open>
  Lines 296 to 302: the matrix swap (the reference is stored, the diagonal of
  the array behind it is zeroed in place), the duration in milliseconds, and the
  continued integration.
\<close>

definition run_block ::
  "'m wc_run \<Rightarrow> run_args \<Rightarrow> ref \<Rightarrow> real \<Rightarrow> store \<Rightarrow> 'm WCModel \<Rightarrow> store \<times> 'm WCModel" where
  "run_block run a Cmat duration st w =
     (let st' = st(Cmat := fill_diagonal (st Cmat) 0);
          w' = w\<lparr> wc_params := (wc_params w)\<lparr> p_Cmat := Cmat, p_duration := duration * 1000 \<rparr> \<rparr>
      in (st', run a st' w'))"

definition block_args :: "'m WCTaskSim \<Rightarrow> run_args" where
  "block_args s =
     \<lparr> r_append_outputs = sim_append_outputs s, r_bold = sim_bold s,
       r_continue_run = True, r_chunkwise = sim_chunkwise s \<rparr>"

text \<open>
  \<^verbatim>\<open>_generate_single_block(Cmat, duration, activity, a_s_rate, syn_act)\<close>.
\<close>

definition generate_single_block ::
  "'m wc_run \<Rightarrow> 'm WCTaskSim \<Rightarrow> ref \<Rightarrow> real \<Rightarrow> bool \<Rightarrow> real \<Rightarrow> bool \<Rightarrow> error + 'm WCTaskSim" where
  "generate_single_block run s Cmat duration activity_flag a_s_rate syn_act =
     bind_res (if sim_chunkwise s then py_fmod duration 2 else Inr 0) (\<lambda>r.
       if sim_chunkwise s \<and> r \<noteq> 0
       then Inl (AssertionError
              ''For faster integration time duration is chunkwise duration should be divisible by two '')
       else
         case run_block run (block_args s) Cmat duration (sim_store s) (sim_wc s) of
           (st, w) \<Rightarrow>
             let s' = s\<lparr> sim_store := st, sim_wc := w \<rparr>
             in if activity_flag then save_activity s' a_s_rate syn_act else Inr s')"

text \<open>\<^verbatim>\<open>self.time_idxs_dict[label].append([round(start, 3), round(end, 3)])\<close>.\<close>

definition record_interval ::
  "'m WCTaskSim \<Rightarrow> string \<Rightarrow> real \<Rightarrow> real \<Rightarrow> error + 'm WCTaskSim" where
  "record_interval s label start_time end_time =
     bind_res (py_getitem (sim_time_idxs_dict s) label) (\<lambda>l.
       Inr (s\<lparr> sim_time_idxs_dict :=
                 AList.update label (l @ [(round3 start_time, round3 end_time)])
                   (sim_time_idxs_dict s) \<rparr>))"

text \<open>\<^verbatim>\<open>_generate_first_rest\<close> and \<^verbatim>\<open>_generate_last_rest\<close>.\<close>

definition generate_first_rest ::
  "'m wc_run \<Rightarrow> 'm WCTaskSim \<Rightarrow> bool \<Rightarrow> real \<Rightarrow> bool \<Rightarrow> error + 'm WCTaskSim" where
  "generate_first_rest run s activity_flag a_s_rate syn_act =
     bind_res (py_index (sim_onset_time_list s) 0) (\<lambda>onset0.
       let start_time_rest = (if sim_rest_before s then - sim_first_duration s else 0);
           duration = (if sim_rest_before s then - start_time_rest + onset0 else onset0);
           end_time_rest = onset0
       in bind_res (generate_single_block run s (sim_Wij_rest s) duration activity_flag
                      a_s_rate syn_act)
            (\<lambda>s'. record_interval s' ''Rest'' start_time_rest end_time_rest))"

definition generate_last_rest ::
  "'m wc_run \<Rightarrow> 'm WCTaskSim \<Rightarrow> bool \<Rightarrow> real \<Rightarrow> bool \<Rightarrow> error + 'm WCTaskSim" where
  "generate_last_rest run s activity_flag a_s_rate syn_act =
     bind_res (py_last (sim_onset_time_list s)) (\<lambda>onset_last.
     bind_res (py_last (sim_duration_list s)) (\<lambda>duration_last.
       let start_time_rest = onset_last + duration_last;
           duration = sim_last_duration s;
           end_time_rest = start_time_rest + duration
       in bind_res (generate_single_block run s (sim_Wij_rest s) duration activity_flag
                      a_s_rate syn_act)
            (\<lambda>s'. record_interval s' ''Rest'' start_time_rest end_time_rest)))"

subsection \<open>Chunkwise hemodynamic generation\<close>

text \<open>\<^verbatim>\<open>a[:, u:]\<close> and \<^verbatim>\<open>a[:, :u]\<close> for a Python integer \<open>u\<close>.\<close>

definition py_from :: "int \<Rightarrow> 'a list \<Rightarrow> 'a list" where
  "py_from u xs = drop (nat (if u < 0 then max (int (length xs) + u) 0 else u)) xs"

definition py_upto :: "int \<Rightarrow> 'a list \<Rightarrow> 'a list" where
  "py_upto u xs = take (nat (if u < 0 then max (int (length xs) + u) 0 else u)) xs"

text \<open>
  The first half of \<^verbatim>\<open>generate_bold_chunkwise\<close>: the signal chosen by
  \<open>input_type\<close>, appended to the leftover of the previous call.
\<close>

definition chunk_input :: "'m WCTaskSim \<Rightarrow> string \<Rightarrow> series \<Rightarrow> error + series" where
  "chunk_input s input_type input_rest =
     (if input_type = ''exc'' then
        bind_res (py_getitem (wc_outputs (sim_wc s)) ''exc'') (\<lambda>e. Inr (input_rest @ e))
      else if input_type = ''sum'' then
        bind_res (py_getitem (wc_outputs (sim_wc s)) ''exc'') (\<lambda>e.
        bind_res (py_getitem (wc_outputs (sim_wc s)) ''inh'') (\<lambda>i.
          Inr (input_rest @ series_add e i)))
      else Inr (input_rest @ generate_neuronal_oscill s))"

text \<open>
  The second half of \<^verbatim>\<open>generate_bold_chunkwise\<close> (lines 700 to 712): the whole
  windows go to \<^verbatim>\<open>bw_convolve\<close>, the remainder is stored.
\<close>

definition process_chunk ::
  "integrator \<Rightarrow> 'm WCTaskSim \<Rightarrow> real \<Rightarrow> series \<Rightarrow> bool \<Rightarrow> error + 'm WCTaskSim" where
  "process_chunk simulateBOLD s chunksize new_exc is_first =
     (if chunksize < real (length new_exc) then
        bind_res (py_fmod (real (length new_exc)) chunksize) (\<lambda>r.
          let used_last_idxs = py_int (real (length new_exc) - r);
              bold_input = py_upto used_last_idxs new_exc
          in case sim_hrf s of
               None \<Rightarrow> Inl (AttributeError ''bw_convolve'')
             | Some h \<Rightarrow>
                 bind_res (bw_convolve simulateBOLD h bold_input (\<not> is_first)) (\<lambda>h'.
                   Inr (s\<lparr> sim_input_rest := Some (py_from used_last_idxs new_exc),
                           sim_hrf := Some h',
                           sim_BOLD := Some (hrf_BOLD h'),
                           sim_t_BOLD := Some (hrf_t_BOLD h') \<rparr>)))
      else Inr (s\<lparr> sim_input_rest := Some new_exc \<rparr>))"

text \<open>
  \<^verbatim>\<open>generate_bold_chunkwise(TR, input_type, normalize_max, is_first, fix)\<close>.
\<close>

definition generate_bold_chunkwise ::
  "integrator \<Rightarrow> 'm WCTaskSim \<Rightarrow> real \<Rightarrow> string \<Rightarrow> real \<Rightarrow> bool \<Rightarrow> bool \<Rightarrow> error + 'm WCTaskSim" where
  "generate_bold_chunkwise simulateBOLD s0 tr input_type norm_max is_first fix =
     (let s = s0\<lparr> sim_TR := Some tr \<rparr>;
          n_regions = p_N (wc_params (sim_wc s));
          dt = p_dt (wc_params (sim_wc s))
      in bind_res (py_div (tr * 1000) dt) (\<lambda>chunksize.
         if input_type \<notin> set [''exc'', ''sum'', ''syn_act'']
         then Inl (AssertionError ''input type could be 'exc', 'sum' or 'syn_act' '')
         else
           bind_res (if is_first then Inr []
                     else case sim_input_rest s of
                            None \<Rightarrow> Inl (AttributeError ''input_rest'')
                          | Some r \<Rightarrow> Inr r) (\<lambda>input_rest.
           bind_res (chunk_input s input_type input_rest) (\<lambda>new_exc.
           bind_res (if is_first
                     then bind_res (HRF_init n_regions dt tr True norm_max fix)
                            (\<lambda>h. Inr (s\<lparr> sim_hrf := Some h \<rparr>))
                     else Inr s) (\<lambda>s1.
             process_chunk simulateBOLD s1 chunksize new_exc is_first)))))"

subsection \<open>The full run\<close>

record gfs_args =
  g_bold_chunkwise :: bool
  g_TR :: real
  g_activity :: bool
  g_a_s_rate :: real
  g_normalize_max :: real
  g_output_activation :: string
  g_clear_raw :: bool
  g_fix_bold :: bool

text \<open>
  The end of one pass of the task loop (lines 508 to 513): the raw outputs are
  emptied when \<^verbatim>\<open>clear_raw\<close> is set, and \<^verbatim>\<open>wc.t\<close>, \<^verbatim>\<open>wc.outputs\<close> and
  \<^verbatim>\<open>wc.state\<close> are emptied in every pass.
\<close>

definition clear_buffers :: "bool \<Rightarrow> 'm WCTaskSim \<Rightarrow> 'm WCTaskSim" where
  "clear_buffers clear_raw s =
     (let w = sim_wc s;
          w1 = (if clear_raw then w\<lparr> wc_exc := [], wc_inh := [] \<rparr> else w)
      in s\<lparr> sim_wc := w1\<lparr> wc_t := [], wc_outputs := [], wc_state := [] \<rparr> \<rparr>)"

text \<open>The call of \<^verbatim>\<open>generate_bold_chunkwise\<close> that follows a block when
  \<^verbatim>\<open>bold_chunkwise\<close> is set.\<close>

definition bold_after_block ::
  "integrator \<Rightarrow> gfs_args \<Rightarrow> bool \<Rightarrow> 'm WCTaskSim \<Rightarrow> error + 'm WCTaskSim" where
  "bold_after_block simulateBOLD g is_first s =
     (if g_bold_chunkwise g
      then (case sim_output_activation s of
              None \<Rightarrow> Inl (AttributeError ''output_activation'')
            | Some input_type \<Rightarrow>
                (case sim_fix_bold s of
                   None \<Rightarrow> Inl (AttributeError ''fix_bold'')
                 | Some fix \<Rightarrow>
                     generate_bold_chunkwise simulateBOLD s (g_TR g) input_type
                       (g_normalize_max g) is_first fix))
      else Inr s)"

text \<open>
  Lines 475 to 506: after task \<open>i\<close>, the rest block that fills a positive gap
  to the next onset, or the last rest block when \<open>i\<close> is the last task.
\<close>

definition following_rest ::
  "'m wc_run \<Rightarrow> integrator \<Rightarrow> gfs_args \<Rightarrow> bool \<Rightarrow> nat \<Rightarrow> real \<Rightarrow> real \<Rightarrow> 'm WCTaskSim
     \<Rightarrow> error + 'm WCTaskSim" where
  "following_rest run simulateBOLD g syn_act i onset_time duration s =
     (if int i < int (length (sim_onset_time_list s)) - 1 then
        bind_res (py_index (sim_onset_time_list s) (i + 1)) (\<lambda>onset_next.
          let gap = onset_next - onset_time - duration
          in if 0 < gap then
               bind_res (generate_single_block run s (sim_Wij_rest s) gap (g_activity g)
                           (g_a_s_rate g) syn_act) (\<lambda>s1.
               bind_res (bold_after_block simulateBOLD g False s1) (\<lambda>s2.
                 record_interval s2 ''Rest'' (onset_time + duration) onset_next))
             else Inr s)
      else
        bind_res (generate_last_rest run s (g_activity g) (g_a_s_rate g) syn_act)
          (bold_after_block simulateBOLD g False))"

text \<open>The body of \<^verbatim>\<open>for i in range(len(self.onset_time_list))\<close>.\<close>

definition task_step ::
  "'m wc_run \<Rightarrow> integrator \<Rightarrow> gfs_args \<Rightarrow> bool \<Rightarrow> nat \<Rightarrow> 'm WCTaskSim \<Rightarrow> error + 'm WCTaskSim" where
  "task_step run simulateBOLD g syn_act i s =
     bind_res (py_index (sim_task_name_list s) i) (\<lambda>task_name.
     bind_res (py_getitem (sim_Wij_task_dict s) task_name) (\<lambda>Cmat.
     bind_res (py_index (sim_onset_time_list s) i) (\<lambda>onset_time.
     bind_res (py_index (sim_duration_list s) i) (\<lambda>duration.
     bind_res (generate_single_block run s Cmat duration (g_activity g) (g_a_s_rate g) syn_act)
       (\<lambda>s1.
     bind_res (bold_after_block simulateBOLD g False s1) (\<lambda>s2.
     bind_res (record_interval s2 task_name onset_time (onset_time + duration)) (\<lambda>s3.
     bind_res (following_rest run simulateBOLD g syn_act i onset_time duration s3) (\<lambda>s4.
       Inr (clear_buffers (g_clear_raw g) s4)))))))))"

fun task_loop ::
  "'m wc_run \<Rightarrow> integrator \<Rightarrow> gfs_args \<Rightarrow> bool \<Rightarrow> nat list \<Rightarrow> 'm WCTaskSim \<Rightarrow> error + 'm WCTaskSim" where
  "task_loop run simulateBOLD g syn_act [] s = Inr s"
| "task_loop run simulateBOLD g syn_act (i # rest) s =
     bind_res (task_step run simulateBOLD g syn_act i s)
       (task_loop run simulateBOLD g syn_act rest)"

text \<open>
  The set-up of \<^verbatim>\<open>generate_full_series\<close> (lines 425 to 441), with what it
  prints, and the run after it. \<^verbatim>\<open>generate_full_series\<close> returns the lines
  printed and either the exception raised or the final object.
\<close>

definition configure :: "gfs_args \<Rightarrow> 'm WCTaskSim \<Rightarrow> string list \<times> 'm WCTaskSim" where
  "configure g s0 =
     (let s = s0\<lparr> sim_output_activation := Some (g_output_activation g),
                  sim_normalize_max := Some (g_normalize_max g),
                  sim_fix_bold := Some (g_fix_bold g),
                  sim_TR := Some (g_TR g) \<rparr>
      in if g_bold_chunkwise g
         then ((if sim_bold s
                then [''Options bold_chunkwise incompatible with bold True, set to False'']
                else []),
               s\<lparr> sim_bold_input_ready := True, sim_append_outputs := False,
                  sim_bold := False, sim_chunkwise := False \<rparr>)
         else ([], s))"

text \<open>Lines 444 to 452: the check of the first rest block and the first
  hemodynamic call.\<close>

definition seed_bold ::
  "integrator \<Rightarrow> gfs_args \<Rightarrow> real \<Rightarrow> 'm WCTaskSim \<Rightarrow> error + 'm WCTaskSim" where
  "seed_bold simulateBOLD g chunksize s =
     (if g_bold_chunkwise g then
        bind_res (py_getitem (wc_outputs (sim_wc s)) ''exc'') (\<lambda>e.
          if real (length e) < chunksize
          then Inl (AssertionError ''First rest series should be longer than TR'')
          else bold_after_block simulateBOLD g True s)
      else Inr s)"

definition run_blocks ::
  "'m wc_run \<Rightarrow> integrator \<Rightarrow> gfs_args \<Rightarrow> 'm WCTaskSim \<Rightarrow> error + 'm WCTaskSim" where
  "run_blocks run simulateBOLD g s =
     bind_res (if g_bold_chunkwise g
               then py_div (g_TR g * 1000) (p_dt (wc_params (sim_wc s)))
               else Inr 0) (\<lambda>chunksize.
       let syn_act = (g_output_activation g \<noteq> ''exc'')
       in bind_res (generate_first_rest run s (g_activity g) (g_a_s_rate g) syn_act) (\<lambda>s1.
          bind_res (seed_bold simulateBOLD g chunksize s1)
            (task_loop run simulateBOLD g syn_act [0 ..< length (sim_onset_time_list s)])))"

definition generate_full_series ::
  "'m wc_run \<Rightarrow> integrator \<Rightarrow> gfs_args \<Rightarrow> 'm WCTaskSim \<Rightarrow> string list \<times> (error + 'm WCTaskSim)" where
  "generate_full_series run simulateBOLD g s =
     (case configure g s of (printed, s') \<Rightarrow> (printed, run_blocks run simulateBOLD g s'))"

section \<open>A small design and a toy collaborator, for concrete runs\<close>

text \<open>
  Two regions; the rest matrix at address 0, the matrix of task \<open>A\<close> at address 1,
  the delays at address 2. The time step is 1000 ms, so a block of \<open>d\<close> seconds is
  \<open>d\<close> fine steps, and a repetition time of 2 s is a window of two fine steps.
\<close>

definition example_store :: store where
  "example_store r =
     (if r = 0 then [[7, 1], [1, 7]]
      else if r = 1 then [[7, 5], [5, 7]]
      else if r = 2 then [[250, 250], [250, 250]]
      else [])"

definition example_model :: "store \<Rightarrow> ref \<Rightarrow> ref \<Rightarrow> nat WCModel" where
  "example_model st c d =
     \<lparr> wc_params = \<lparr> p_Cmat = 3, p_duration = 2000, p_dt = 1000, p_N = length (st c),
                      p_c_excexc = 0, p_c_excinh = 0, p_c_inhexc = 0, p_c_inhinh = 0,
                      p_other = [] \<rparr>,
       wc_Cmat = c, wc_exc = [], wc_inh = [], wc_t = [], wc_outputs = [], wc_state = [],
       wc_internal = 0 \<rparr>"

text \<open>
  The toy integrator counts the fine steps it has produced in its internal
  state and continues from there: at global step \<open>t\<close> region \<open>r\<close> has
  excitatory activity \<open>t * (r + 1)\<close> and inhibitory activity 1. It reads nothing
  but the parameters and its internal state.
\<close>

definition example_run :: "nat wc_run" where
  "example_run a st w =
     (let p = wc_params w;
          steps = nat \<lfloor>p_duration p / p_dt p\<rfloor>;
          t0 = wc_internal w;
          e = map (\<lambda>j. map (\<lambda>r. real ((t0 + j + 1) * (r + 1))) [0 ..< p_N p]) [0 ..< steps];
          i = map (\<lambda>j. replicate (p_N p) 1) [0 ..< steps]
      in w\<lparr> wc_exc := e, wc_inh := i,
            wc_t := map (\<lambda>j. real (t0 + j + 1) * p_dt p) [0 ..< steps],
            wc_outputs := [(''exc'', e), (''inh'', i)],
            wc_state := [(''exc'', e), (''inh'', i)],
            wc_internal := t0 + steps \<rparr>)"

text \<open>The toy hemodynamic integrator appends every value it is fed to its first
  state vector, so the state shows what it has integrated.\<close>

definition example_integrator :: integrator where
  "example_integrator a dt x f q v fix = (a, x @ concat a, f, q, v)"

text \<open>One task \<open>A\<close> at 2 s for 3 s, 6 s of rest before and 8 s after.\<close>

definition example_design :: init_args where
  "example_design =
     \<lparr> a_Wij_task_dict = [(''A'', 1)], a_Wij_rest = 0, a_D = 2,
       a_onset_time_list = Some [2], a_task_name_list = Some [''A''],
       a_duration_list = DurationScalar 3, a_rest_before = True,
       a_first_duration = 6, a_last_duration = 8, a_append_outputs = False,
       a_bold = False, a_chunkwise = False, a_num_modules = 3,
       a_act_sampling_rate = 20, a_exc_ext = 3 / 4, a_K_gl = 57 / 20,
       a_sigma_ou = 5 / 1000, a_kwargs = [] \<rparr>"

text \<open>Three trials of \<open>A\<close> whose third onset lies before the second, and two
  trials in decreasing order.\<close>

definition unordered_design :: init_args where
  "unordered_design =
     example_design\<lparr> a_onset_time_list := Some [1, 2, 1],
                     a_task_name_list := Some [''A'', ''A'', ''A''] \<rparr>"

definition decreasing_design :: init_args where
  "decreasing_design =
     example_design\<lparr> a_onset_time_list := Some [2, 1],
                     a_task_name_list := Some [''A'', ''A''] \<rparr>"

definition example_args :: gfs_args where
  "example_args =
     \<lparr> g_bold_chunkwise = True, g_TR = 2, g_activity = True, g_a_s_rate = 2,
       g_normalize_max = 2, g_output_activation = ''syn_act'', g_clear_raw = True,
       g_fix_bold = True \<rparr>"

text \<open>A resampler of one region with a rate of two fine steps.\<close>

definition example_hrf :: HRF where
  "example_hrf =
     \<lparr> hrf_N = 1, hrf_dt = 1000, hrf_TR = 2, hrf_normalize_input = True,
       hrf_normalize_max = 1, hrf_fix = True, hrf_samplingRate_NDt = 2,
       hrf_t_BOLD = [], hrf_BOLD = [], hrf_BOLD_chunk = [], hrf_idxLastT = 0,
       hrf_X_BOLD = [0], hrf_F_BOLD = [1], hrf_Q_BOLD = [1], hrf_V_BOLD = [1] \<rparr>"

text \<open>The object that \<^verbatim>\<open>__init__\<close> builds from the example design.\<close>

definition example_sim :: "nat WCTaskSim" where
  "example_sim =
     \<lparr> sim_store = example_store, sim_Dmat = 2, sim_hrf = None, sim_BOLD = None,
       sim_normalize_max = None, sim_t_BOLD = None, sim_output_activation = None,
       sim_rest_before = True, sim_Wij_rest = 0,
       sim_wc =
         \<lparr> wc_params =
             \<lparr> p_Cmat = 3, p_duration = 3000, p_dt = 1000, p_N = 2,
               p_c_excexc = 16, p_c_excinh = 15, p_c_inhexc = 12, p_c_inhinh = 3,
               p_other =
                 [(''exc_ext'', 3 / 4), (''K_gl'', 57 / 20), (''sigma_ou'', 1 / 200),
                  (''inh_ext'', 0), (''tau_ou'', 5), (''a_exc'', 3 / 2), (''a_inh'', 3 / 2),
                  (''mu_exc'', 3), (''mu_inh'', 3), (''tau_exc'', 5 / 2),
                  (''tau_inh'', 15 / 4), (''signalV'', 10)] \<rparr>,
           wc_Cmat = 0, wc_exc = [], wc_inh = [], wc_t = [], wc_outputs = [],
           wc_state = [], wc_internal = 0 \<rparr>,
       sim_Wij_task_dict = [(''A'', 1)], sim_num_tasks = 1,
       sim_task_name_list = [''A''], sim_onset_time_list = [2],
       sim_duration_list = [3], sim_append_outputs = False, sim_chunkwise = False,
       sim_activity =
         \<lparr> act_exc_series = None, act_inh_series = None, act_sa_series = None,
           act_sampling_rate = 20, act_idx_last_t = 0, act_t = None \<rparr>,
       sim_bold = False, sim_bold_input_ready = False, sim_TR = None,
       sim_last_duration = 8, sim_first_duration = 6,
       sim_time_idxs_dict = [(''Rest'', []), (''A'', [])],
       sim_num_modules = 3, sim_fix_bold = None, sim_input_rest = None \<rparr>"

text \<open>The object after the model has produced the raw excitatory output \<open>e\<close>.\<close>

definition with_output :: "series \<Rightarrow> 'm WCTaskSim \<Rightarrow> 'm WCTaskSim" where
  "with_output e s = s\<lparr> sim_wc := (sim_wc s)\<lparr> wc_exc := e, wc_outputs := [(''exc'', e)] \<rparr> \<rparr>"

section \<open>Notions used in the statements\<close>






text \<open>
  A collaborator that continues from its parameters and its internal state: its
  run does not read the raw output attributes nor the dictionaries \<^verbatim>\<open>outputs\<close>
  and \<^verbatim>\<open>state\<close>.
\<close>

definition ignores_raw_buffers :: "'m wc_run \<Rightarrow> run_args \<Rightarrow> bool" where
  "ignores_raw_buffers run a =
     (\<forall>st w e i t out sv.
        run a st (w\<lparr> wc_exc := e, wc_inh := i, wc_t := t, wc_outputs := out, wc_state := sv \<rparr>)
          = run a st w)"

text \<open>
  The synaptic activity as the design states it:
  \<open>(c_ee + c_ei) E + (c_ie + c_ii) I + Coupling E\<close>.
\<close>

definition synaptic_formula :: "real \<Rightarrow> real \<Rightarrow> real \<Rightarrow> real \<Rightarrow> cmatrix \<Rightarrow> series \<Rightarrow> series \<Rightarrow> series" where
  "synaptic_formula ee ei ie ii coupling e i =
     series_add (series_add (series_scale (ee + ei) e) (series_scale (ie + ii) i))
       (matmul coupling e)"

text \<open>
  The design as the object holds it; a store that differs from another only by
  arrays whose diagonal has been zeroed; an array whose diagonal has been
  zeroed in the later store.
\<close>

definition schedule_of ::
  "'m WCTaskSim \<Rightarrow> real list \<times> real list \<times> string list \<times> (string \<times> ref) list \<times> ref \<times> bool \<times> real \<times> real" where
  "schedule_of s =
     (sim_onset_time_list s, sim_duration_list s, sim_task_name_list s, sim_Wij_task_dict s,
      sim_Wij_rest s, sim_rest_before s, sim_first_duration s, sim_last_duration s)"

definition zeroed_only :: "store \<Rightarrow> store \<Rightarrow> bool" where
  "zeroed_only st st' = (\<forall>r. st' r = st r \<or> st' r = fill_diagonal (st r) 0)"

definition installed :: "ref \<Rightarrow> store \<Rightarrow> store \<Rightarrow> bool" where
  "installed c st st' = (st' c = fill_diagonal (st c) 0)"

text \<open>The settings a hemodynamic stage is created with.\<close>

definition stage_settings :: "HRF \<Rightarrow> nat \<times> real \<times> real \<times> bool \<times> real \<times> bool \<times> int" where
  "stage_settings h =
     (hrf_N h, hrf_dt h, hrf_TR h, hrf_normalize_input h, hrf_normalize_max h, hrf_fix h,
      hrf_samplingRate_NDt h)"

text \<open>The error of the check of the first rest block.\<close>

abbreviation first_rest_error :: error where
  "first_rest_error \<equiv> AssertionError ''First rest series should be longer than TR''"

text \<open>
  The design of the end-to-end scenario: one task \<open>A\<close> at 2 s for 3 s, 6 s of
  rest before and 8 s after; the other arguments are those of \<open>d\<close>.
\<close>

definition one_task_design :: "init_args \<Rightarrow> ref \<Rightarrow> init_args" where
  "one_task_design d ra =
     d\<lparr> a_Wij_task_dict := [(''A'', ra)], a_onset_time_list := Some [2],
        a_task_name_list := Some [''A''], a_duration_list := DurationScalar 3,
        a_rest_before := True, a_first_duration := 6, a_last_duration := 8 \<rparr>"

section \<open>Properties\<close>

lemma bind_res_simps:
  "bind_res (Inl e) f = Inl e"
  "bind_res (Inr x) f = f x"
  by (simp_all add: bind_res_def)

lemma bind_res_InrE:
  assumes "bind_res r f = Inr y"
  obtains x where "r = Inr x" and "f x = Inr y"
  using assms by (cases r) (auto simp: bind_res_def)

lemma example_hrf_init: "HRF_init 1 1000 2 True 1 True = Inr example_hrf"
  by (simp add: HRF_init_def py_div_def bind_res_def py_round_def example_hrf_def)

subsection \<open>The resampler\<close>

text \<open>
  C1 (resampler continuity: resampling a signal in one call gives the same
  samples and time stamps as resampling its first \<open>k\<close> samples and then the rest
  at the continued offset). The code does not do this when the second call
  starts on a sampled step: with a rate of 2 and offset 0, the whole signal of
  four samples yields the samples at steps 1 and 3, while the split after the
  first sample yields nothing for the first part and only step 3 for the second
  part (the sample at step 1, the first of the second call, is skipped). The
  driver, which writes the same phase inline, does the same: one block of four
  fine steps stores the steps 1 and 3 of the excitatory series, a block of one
  step followed by a block of three steps stores step 3 only.
\<close>

theorem C1_split_drops_boundary_sample:
  "resample_to_TR example_hrf [[10], [11], [12], [13::real]] 0
     = Inr ([1000, 3000], [[11], [13]])
   \<and> resample_to_TR example_hrf (take 1 [[10], [11], [12], [13::real]]) 0 = Inr ([], [])
   \<and> resample_to_TR example_hrf (drop 1 [[10], [11], [12], [13::real]]) (0 + 1)
     = Inr ([3000], [[13]])
   \<and> map_sum id (\<lambda>s. (act_exc_series (sim_activity s), act_t (sim_activity s)))
        (generate_single_block example_run example_sim 0 4 True 2 False)
     = Inr (Some [[2, 4], [4, 8]], Some [1000, 3000])
   \<and> map_sum id (\<lambda>s. (act_exc_series (sim_activity s), act_t (sim_activity s)))
        (bind_res (generate_single_block example_run example_sim 0 1 True 2 False)
           (\<lambda>s1. generate_single_block example_run s1 0 3 True 2 False))
     = Inr (Some [[4, 8]], Some [3000])"
  by code_simp

subsection \<open>Validation of the design\<close>

text \<open>
  C4 (a design whose onsets are not strictly increasing is rejected by the
  constructor). The constructor accepts the onsets 1, 2, 1 whatever the model
  constructor and the store are, because its check asks for some increasing
  step, not for all of them; it rejects the onsets 2, 1.
\<close>

theorem C4_unordered_onsets_accepted:
  "(case WCTaskSim_init new_model st unordered_design of
      Inl e \<Rightarrow> False
    | Inr s \<Rightarrow> sim_onset_time_list s = [1, 2, 1])
   \<and> WCTaskSim_init new_model st decreasing_design
       = Inl (AssertionError ''Next onset time should be more than previous '')"
  by (simp add: WCTaskSim_init_def unordered_design_def decreasing_design_def
      example_design_def np_diff_def init_wc_model_def kw_defaults_def setdefault_def
      py_index_def py_getitem_def bind_res_def Let_def)


subsection \<open>The hemodynamic convolution stage\<close>

lemma example_sim_init:
  "WCTaskSim_init example_model example_store example_design = Inr example_sim"
  by (simp add: WCTaskSim_init_def example_design_def example_model_def example_sim_def
      example_store_def init_wc_model_def kw_defaults_def setdefault_def
      py_index_def py_getitem_def bind_res_def Let_def)


lemma chunk_input_TR: "chunk_input (s\<lparr>sim_TR := x\<rparr>) ty r = chunk_input s ty r"
  by (simp add: chunk_input_def generate_neuronal_oscill_def)



text \<open>
  C2 (after every call the leftover buffer has strictly fewer than
  \<open>chunksize\<close> columns, and \<open>floor(T / chunksize)\<close> samples have been emitted).
  When the first block holds exactly one window (\<open>chunksize\<close> columns, which the
  check of the first rest block lets through), the call stores all of them as
  leftover and emits nothing: the test for a whole window is strict.
\<close>

theorem C2_full_window_is_left_over:
  assumes "py_getitem (wc_outputs (sim_wc s)) ''exc'' = Inr e"
      and "p_dt (wc_params (sim_wc s)) \<noteq> 0"
      and "real (length e) = tr * 1000 / p_dt (wc_params (sim_wc s))"
  shows "\<exists>s' h. generate_bold_chunkwise simulateBOLD s tr ''exc'' norm_max True fix = Inr s'
           \<and> sim_input_rest s' = Some e \<and> sim_BOLD s' = sim_BOLD s
           \<and> sim_hrf s' = Some h \<and> hrf_BOLD h = []"
  using assms
  by (simp add: generate_bold_chunkwise_def process_chunk_def chunk_input_def py_div_def bind_res_def
      HRF_init_def Let_def)

theorem C2_full_window_is_left_over_witness:
  "\<exists>s' h. generate_bold_chunkwise example_integrator (with_output [[1, 2], [3, 4]] example_sim)
             2 ''exc'' 1 True True = Inr s'
         \<and> sim_input_rest s' = Some [[1, 2], [3, 4]]
         \<and> sim_BOLD s' = None
         \<and> sim_hrf s' = Some h \<and> hrf_BOLD h = []"
  using C2_full_window_is_left_over [of "with_output [[1, 2], [3, 4]] example_sim"
      "[[1, 2], [3, 4]]" 2 example_integrator 1 True]
  by (simp add: with_output_def example_sim_def py_getitem_def)





subsection \<open>The driver\<close>

lemma run_same_core:
  assumes "ignores_raw_buffers run a"
    and "wc_params w1 = wc_params w2" and "wc_Cmat w1 = wc_Cmat w2"
    and "wc_internal w1 = wc_internal w2"
  shows "run a st w1 = run a st w2"
proof -
  have "w2 = w1\<lparr> wc_exc := wc_exc w2, wc_inh := wc_inh w2, wc_t := wc_t w2,
                  wc_outputs := wc_outputs w2, wc_state := wc_state w2 \<rparr>"
    using assms(2-4) by (cases w1, cases w2) simp
  then have "run a st w2
      = run a st (w1\<lparr> wc_exc := wc_exc w2, wc_inh := wc_inh w2, wc_t := wc_t w2,
                  wc_outputs := wc_outputs w2, wc_state := wc_state w2 \<rparr>)"
    by simp
  also have "\<dots> = run a st w1"
    using assms(1) unfolding ignores_raw_buffers_def by blast
  finally show ?thesis by simp
qed

text \<open>
  C5 (discarding the raw buffers leaves the accumulated coarse series, the
  hemodynamic state and the model's continuation state unchanged, and the next
  block continues from the carried state). The discard writes only the raw
  output attributes and the dictionaries \<^verbatim>\<open>outputs\<close> and \<^verbatim>\<open>state\<close> of the
  handle; for a model that continues from its parameters and internal state, the
  next block after the discard is the block it would have been without it.
\<close>

theorem C5_discard_keeps_series_and_state:
  "sim_activity (clear_buffers clear_raw s) = sim_activity s
   \<and> sim_hrf (clear_buffers clear_raw s) = sim_hrf s
   \<and> sim_BOLD (clear_buffers clear_raw s) = sim_BOLD s
   \<and> sim_t_BOLD (clear_buffers clear_raw s) = sim_t_BOLD s
   \<and> sim_input_rest (clear_buffers clear_raw s) = sim_input_rest s
   \<and> sim_time_idxs_dict (clear_buffers clear_raw s) = sim_time_idxs_dict s
   \<and> sim_store (clear_buffers clear_raw s) = sim_store s
   \<and> wc_params (sim_wc (clear_buffers clear_raw s)) = wc_params (sim_wc s)
   \<and> wc_Cmat (sim_wc (clear_buffers clear_raw s)) = wc_Cmat (sim_wc s)
   \<and> wc_internal (sim_wc (clear_buffers clear_raw s)) = wc_internal (sim_wc s)
   \<and> (ignores_raw_buffers run (block_args s) \<longrightarrow>
        generate_single_block run (clear_buffers clear_raw s) Cmat duration activity_flag
            a_s_rate syn_act
          = generate_single_block run s Cmat duration activity_flag a_s_rate syn_act)"
proof -
  have "run_block run (block_args s) Cmat duration (sim_store s) (sim_wc (clear_buffers clear_raw s))
        = run_block run (block_args s) Cmat duration (sim_store s) (sim_wc s)"
    if h: "ignores_raw_buffers run (block_args s)"
    unfolding run_block_def Let_def
    by (simp, rule run_same_core [OF h]) (simp_all add: clear_buffers_def Let_def)
  moreover have "block_args (clear_buffers clear_raw s) = block_args s"
    "sim_store (clear_buffers clear_raw s) = sim_store s"
    "sim_chunkwise (clear_buffers clear_raw s) = sim_chunkwise s"
    "\<And>st w. clear_buffers clear_raw s\<lparr>sim_store := st, sim_wc := w\<rparr> = s\<lparr>sim_store := st, sim_wc := w\<rparr>"
    by (simp_all add: clear_buffers_def block_args_def Let_def)
  ultimately have "ignores_raw_buffers run (block_args s) \<Longrightarrow>
        generate_single_block run (clear_buffers clear_raw s) Cmat duration activity_flag
            a_s_rate syn_act
          = generate_single_block run s Cmat duration activity_flag a_s_rate syn_act"
    by (simp add: generate_single_block_def cong: if_cong)
  then show ?thesis by (simp add: clear_buffers_def Let_def)
qed


theorem C5_discard_keeps_series_and_state_witness:
  "ignores_raw_buffers example_run (block_args (with_output [[1, 2]] example_sim))
   \<and> sim_activity (clear_buffers True (with_output [[1, 2]] example_sim))
       = sim_activity (with_output [[1, 2]] example_sim)
   \<and> wc_internal (sim_wc (clear_buffers True (with_output [[1, 2]] example_sim)))
       = wc_internal (sim_wc (with_output [[1, 2]] example_sim))
   \<and> generate_single_block example_run (clear_buffers True (with_output [[1, 2]] example_sim))
        1 3 True 2 True
       = generate_single_block example_run (with_output [[1, 2]] example_sim) 1 3 True 2 True"
proof -
  have "ignores_raw_buffers example_run (block_args (with_output [[1, 2]] example_sim))"
    by (simp add: ignores_raw_buffers_def example_run_def Let_def)
  with C5_discard_keeps_series_and_state
         [of True "with_output [[1, 2]] example_sim" example_run 1 3 True 2 True]
  show ?thesis by simp
qed


text \<open>The code's sum is the design's formula with the array behind the
  attribute \<^verbatim>\<open>wc.Cmat\<close> as coupling.\<close>

lemma vec_add_scale:
  "vec_add (vec_add (vec_add (map ((*) a) u) (map ((*) b) u)) (map ((*) c) v)) (map ((*) d) v)
   = vec_add (map ((*) (a + b)) u) (map ((*) (c + d)) v)"
  by (auto simp: vec_add_def list_eq_iff_nth_eq algebra_simps)

lemma synaptic_activity_formula:
  "generate_neuronal_oscill s
   = synaptic_formula (p_c_excexc (wc_params (sim_wc s))) (p_c_excinh (wc_params (sim_wc s)))
       (p_c_inhexc (wc_params (sim_wc s))) (p_c_inhinh (wc_params (sim_wc s)))
       (sim_store s (wc_Cmat (sim_wc s))) (wc_exc (sim_wc s)) (wc_inh (sim_wc s))"
proof -
  have "series_add (series_add (series_add (series_scale a e) (series_scale b e))
            (series_scale c i)) (series_scale d i)
        = series_add (series_scale (a + b) e) (series_scale (c + d) i)" for a b c d e i
    by (auto simp: series_add_def series_scale_def list_eq_iff_nth_eq vec_add_scale)
  then show ?thesis
    by (simp add: generate_neuronal_oscill_def synaptic_formula_def Let_def)
qed

text \<open>
  C6 (the synaptic activity of a block uses the coupling matrix that the block
  installed). In the task block \<open>A\<close> of the example the installed matrix is the
  one at address 1, while the attribute \<^verbatim>\<open>wc.Cmat\<close> still refers to the rest
  matrix at address 0: the code's result is the formula with the rest matrix,
  not with the matrix of \<open>A\<close>.
\<close>

theorem C6_task_block_uses_rest_matrix:
  "bind_res (WCTaskSim_init example_model example_store example_design) (\<lambda>s0.
     bind_res (generate_first_rest example_run s0 False 2 True) (\<lambda>s1.
       bind_res (generate_single_block example_run s1 1 3 False 2 True) (\<lambda>s2.
         Inr (p_Cmat (wc_params (sim_wc s2)), wc_Cmat (sim_wc s2), sim_Wij_rest s2,
              generate_neuronal_oscill s2,
              synaptic_formula 16 15 12 3 (sim_store s2 (p_Cmat (wc_params (sim_wc s2))))
                (wc_exc (sim_wc s2)) (wc_inh (sim_wc s2)),
              synaptic_formula 16 15 12 3 (sim_store s2 (sim_Wij_rest s2))
                (wc_exc (sim_wc s2)) (wc_inh (sim_wc s2))))))
   = Inr (1, 0, 0,
          [[312, 582], [345, 645], [378, 708]],
          [[384, 618], [425, 685], [466, 752]],
          [[312, 582], [345, 645], [378, 708]])"
  by code_simp



subsection \<open>What each step of the driver changes\<close>

lemma save_activity_effect:
  assumes "save_activity s a_s_rate syn_act = Inr s'"
  shows "\<exists>a. s' = s\<lparr> sim_activity := a \<rparr>"
  using assms unfolding save_activity_def Let_def
  by (elim bind_res_InrE) blast

lemma generate_single_block_effect:
  assumes "generate_single_block run s Cmat duration activity_flag a_s_rate syn_act = Inr s'"
  shows "schedule_of s' = schedule_of s \<and> block_args s' = block_args s
       \<and> sim_time_idxs_dict s' = sim_time_idxs_dict s
       \<and> sim_output_activation s' = sim_output_activation s \<and> sim_fix_bold s' = sim_fix_bold s
       \<and> (sim_store s', sim_wc s')
           = run_block run (block_args s) Cmat duration (sim_store s) (sim_wc s)"
proof -
  obtain st w where rb: "run_block run (block_args s) Cmat duration (sim_store s) (sim_wc s) = (st, w)"
    by (cases "run_block run (block_args s) Cmat duration (sim_store s) (sim_wc s)")
  from assms rb have k: "(if activity_flag then save_activity (s\<lparr> sim_store := st, sim_wc := w \<rparr>) a_s_rate syn_act
                   else Inr (s\<lparr> sim_store := st, sim_wc := w \<rparr>)) = Inr s'"
    unfolding generate_single_block_def Let_def
    by (elim bind_res_InrE) (auto split: if_splits)
  have "\<exists>a. s' = s\<lparr> sim_store := st, sim_wc := w, sim_activity := a \<rparr>"
  proof (cases activity_flag)
    case True
    with k save_activity_effect [of "s\<lparr> sim_store := st, sim_wc := w \<rparr>" a_s_rate syn_act s']
    show ?thesis by auto
  next
    case False
    with k have "s' = s\<lparr> sim_store := st, sim_wc := w, sim_activity := sim_activity s \<rparr>"
      by auto
    then show ?thesis by blast
  qed
  with rb show ?thesis by (auto simp: schedule_of_def block_args_def)
qed

lemma process_chunk_effect:
  assumes "process_chunk simulateBOLD s c new_exc is_first = Inr s'"
  shows "schedule_of s' = schedule_of s \<and> block_args s' = block_args s
       \<and> sim_time_idxs_dict s' = sim_time_idxs_dict s
       \<and> sim_store s' = sim_store s \<and> sim_wc s' = sim_wc s
       \<and> sim_output_activation s' = sim_output_activation s \<and> sim_fix_bold s' = sim_fix_bold s"
proof (cases "c < real (length new_exc)")
  case True
  with assms show ?thesis
    unfolding process_chunk_def Let_def
    by (auto simp: schedule_of_def block_args_def split: option.splits elim!: bind_res_InrE)
next
  case False
  with assms have "s' = s\<lparr> sim_input_rest := Some new_exc \<rparr>"
    by (simp add: process_chunk_def)
  then show ?thesis by (simp add: schedule_of_def block_args_def)
qed

lemma generate_bold_chunkwise_effect:
  assumes "generate_bold_chunkwise simulateBOLD s tr input_type norm_max is_first fix = Inr s'"
  shows "schedule_of s' = schedule_of s \<and> block_args s' = block_args s
       \<and> sim_time_idxs_dict s' = sim_time_idxs_dict s
       \<and> sim_store s' = sim_store s \<and> sim_wc s' = sim_wc s
       \<and> sim_output_activation s' = sim_output_activation s \<and> sim_fix_bold s' = sim_fix_bold s"
proof -
  from assms obtain c rest new_exc s1 where c: "py_div (tr * 1000) (p_dt (wc_params (sim_wc s))) = Inr c"
    and rest: "(if is_first then Inr []
            else case sim_input_rest s of
                   None \<Rightarrow> Inl (AttributeError ''input_rest'') | Some r \<Rightarrow> Inr r) = Inr rest"
    and new: "chunk_input s input_type rest = Inr new_exc"
    and s1: "(if is_first
              then bind_res (HRF_init (p_N (wc_params (sim_wc s))) (p_dt (wc_params (sim_wc s))) tr True norm_max fix)
                     (\<lambda>h. Inr (s\<lparr>sim_TR := Some tr, sim_hrf := Some h \<rparr>))
              else Inr (s\<lparr>sim_TR := Some tr\<rparr>)) = Inr s1"
    and 2: "process_chunk simulateBOLD s1 c new_exc is_first = Inr s'"
    unfolding generate_bold_chunkwise_def Let_def
    by (auto simp: chunk_input_TR bind_res_simps split: if_splits elim!: bind_res_InrE)
  from s1 have "schedule_of s1 = schedule_of s \<and> block_args s1 = block_args s
       \<and> sim_time_idxs_dict s1 = sim_time_idxs_dict s
       \<and> sim_store s1 = sim_store s \<and> sim_wc s1 = sim_wc s
       \<and> sim_output_activation s1 = sim_output_activation s \<and> sim_fix_bold s1 = sim_fix_bold s"
    by (cases is_first) (auto simp: schedule_of_def block_args_def elim!: bind_res_InrE)
  with process_chunk_effect [OF 2] show ?thesis by simp
qed

lemma bold_after_block_effect:
  assumes "bold_after_block simulateBOLD g is_first s = Inr s'"
  shows "schedule_of s' = schedule_of s \<and> block_args s' = block_args s
       \<and> sim_time_idxs_dict s' = sim_time_idxs_dict s
       \<and> sim_store s' = sim_store s \<and> sim_wc s' = sim_wc s
       \<and> sim_output_activation s' = sim_output_activation s \<and> sim_fix_bold s' = sim_fix_bold s"
proof (cases "g_bold_chunkwise g")
  case True
  with assms obtain ty fx where
    "generate_bold_chunkwise simulateBOLD s (g_TR g) ty (g_normalize_max g) is_first fx = Inr s'"
    by (auto simp: bold_after_block_def split: option.splits)
  from generate_bold_chunkwise_effect [OF this] show ?thesis .
next
  case False
  with assms have "s' = s" by (simp add: bold_after_block_def)
  then show ?thesis by simp
qed

lemma record_interval_effect:
  assumes "record_interval s label a b = Inr s'"
  shows "\<exists>l. py_getitem (sim_time_idxs_dict s) label = Inr l
           \<and> sim_time_idxs_dict s'
               = AList.update label (l @ [(round3 a, round3 b)]) (sim_time_idxs_dict s)
           \<and> schedule_of s' = schedule_of s \<and> block_args s' = block_args s
           \<and> sim_store s' = sim_store s \<and> sim_wc s' = sim_wc s
           \<and> sim_output_activation s' = sim_output_activation s \<and> sim_fix_bold s' = sim_fix_bold s"
  using assms unfolding record_interval_def
  by (elim bind_res_InrE) (auto simp: schedule_of_def block_args_def)

lemma fill_diagonal_nth:
  "i < length m \<Longrightarrow> fill_diagonal m v ! i = (m ! i)[i := v]"
  by (simp add: fill_diagonal_def)

lemma fill_diagonal_length: "length (fill_diagonal m v) = length m"
  by (simp add: fill_diagonal_def)

lemma fill_diagonal_idem: "fill_diagonal (fill_diagonal m v) v = fill_diagonal m v"
  by (rule nth_equalityI) (simp_all add: fill_diagonal_length fill_diagonal_nth)

lemma zeroed_only_refl: "zeroed_only st st"
  by (simp add: zeroed_only_def)

lemma zeroed_only_trans:
  "zeroed_only st st1 \<Longrightarrow> zeroed_only st1 st2 \<Longrightarrow> zeroed_only st st2"
  unfolding zeroed_only_def by (metis fill_diagonal_idem)

lemma installed_then_zeroed:
  "installed c st st1 \<Longrightarrow> zeroed_only st1 st2 \<Longrightarrow> installed c st st2"
  unfolding zeroed_only_def installed_def by (metis fill_diagonal_idem)

lemma zeroed_then_installed:
  "zeroed_only st st1 \<Longrightarrow> installed c st1 st2 \<Longrightarrow> installed c st st2"
  unfolding zeroed_only_def installed_def by (metis fill_diagonal_idem)

lemma run_block_store:
  "fst (run_block run a c d st w) = st(c := fill_diagonal (st c) 0)"
  by (simp add: run_block_def Let_def)

lemma generate_single_block_store:
  assumes "generate_single_block run s c d activity_flag a_s_rate syn_act = Inr s'"
  shows "sim_store s' = (sim_store s)(c := fill_diagonal (sim_store s c) 0)"
proof -
  from generate_single_block_effect [OF assms]
  have "sim_store s' = fst (run_block run (block_args s) c d (sim_store s) (sim_wc s))"
    by (metis fst_conv)
  then show ?thesis by (simp add: run_block_store)
qed

lemma generate_single_block_zeroed:
  assumes "generate_single_block run s c d activity_flag a_s_rate syn_act = Inr s'"
  shows "zeroed_only (sim_store s) (sim_store s') \<and> installed c (sim_store s) (sim_store s')"
  using generate_single_block_store [OF assms]
  by (simp add: zeroed_only_def installed_def)

lemma rest_block_effect:
  assumes b: "generate_single_block run s (sim_Wij_rest s) d activity_flag a_s_rate syn_act = Inr s1"
    and r: "record_interval s1 label x y = Inr s'"
  shows "schedule_of s' = schedule_of s \<and> block_args s' = block_args s
       \<and> sim_output_activation s' = sim_output_activation s \<and> sim_fix_bold s' = sim_fix_bold s
       \<and> zeroed_only (sim_store s) (sim_store s')
       \<and> installed (sim_Wij_rest s) (sim_store s) (sim_store s')"
proof -
  from generate_single_block_effect [OF b] generate_single_block_zeroed [OF b]
  have 1: "schedule_of s1 = schedule_of s" "block_args s1 = block_args s"
    "zeroed_only (sim_store s) (sim_store s1)"
    "installed (sim_Wij_rest s) (sim_store s) (sim_store s1)"
    "sim_output_activation s1 = sim_output_activation s"
    "sim_fix_bold s1 = sim_fix_bold s"
    by simp_all
  from record_interval_effect [OF r] 1 show ?thesis by auto
qed

lemma generate_first_rest_effect:
  assumes "generate_first_rest run s activity_flag a_s_rate syn_act = Inr s'"
  shows "schedule_of s' = schedule_of s \<and> block_args s' = block_args s
       \<and> sim_output_activation s' = sim_output_activation s \<and> sim_fix_bold s' = sim_fix_bold s
       \<and> zeroed_only (sim_store s) (sim_store s')
       \<and> installed (sim_Wij_rest s) (sim_store s) (sim_store s')"
  using assms unfolding generate_first_rest_def Let_def
  by (elim bind_res_InrE) (rule rest_block_effect)

lemma generate_last_rest_effect:
  assumes "generate_last_rest run s activity_flag a_s_rate syn_act = Inr s'"
  shows "schedule_of s' = schedule_of s \<and> block_args s' = block_args s
       \<and> sim_output_activation s' = sim_output_activation s \<and> sim_fix_bold s' = sim_fix_bold s
       \<and> zeroed_only (sim_store s) (sim_store s')
       \<and> installed (sim_Wij_rest s) (sim_store s) (sim_store s')"
  using assms unfolding generate_last_rest_def Let_def
  by (elim bind_res_InrE) (rule rest_block_effect)

lemma following_rest_effect:
  assumes "following_rest run simulateBOLD g syn_act i onset_time duration s = Inr s'"
  shows "schedule_of s' = schedule_of s \<and> block_args s' = block_args s
       \<and> sim_output_activation s' = sim_output_activation s \<and> sim_fix_bold s' = sim_fix_bold s
       \<and> zeroed_only (sim_store s) (sim_store s')"
proof (cases "int i < int (length (sim_onset_time_list s)) - 1")
  case False
  with assms obtain s1 where
    1: "generate_last_rest run s (g_activity g) (g_a_s_rate g) syn_act = Inr s1"
    and 2: "bold_after_block simulateBOLD g False s1 = Inr s'"
    unfolding following_rest_def by (auto elim!: bind_res_InrE)
  from generate_last_rest_effect [OF 1] bold_after_block_effect [OF 2]
  show ?thesis by simp
next
  case True
  with assms obtain onset_next where
    k: "(if 0 < onset_next - onset_time - duration then
               bind_res (generate_single_block run s (sim_Wij_rest s)
                    (onset_next - onset_time - duration) (g_activity g)
                           (g_a_s_rate g) syn_act) (\<lambda>s1.
               bind_res (bold_after_block simulateBOLD g False s1) (\<lambda>s2.
                 record_interval s2 ''Rest'' (onset_time + duration) onset_next))
             else Inr s) = Inr s'"
    unfolding following_rest_def Let_def by (auto elim!: bind_res_InrE)
  show ?thesis
  proof (cases "0 < onset_next - onset_time - duration")
    case False
    with k have "s' = s" by simp
    then show ?thesis by (simp add: zeroed_only_refl)
  next
    case True
    with k obtain s1 s2 where
      1: "generate_single_block run s (sim_Wij_rest s)
            (onset_next - onset_time - duration) (g_activity g) (g_a_s_rate g) syn_act = Inr s1"
      and 2: "bold_after_block simulateBOLD g False s1 = Inr s2"
      and 3: "record_interval s2 ''Rest'' (onset_time + duration) onset_next = Inr s'"
      by (auto elim!: bind_res_InrE)
    from generate_single_block_effect [OF 1] generate_single_block_zeroed [OF 1]
      bold_after_block_effect [OF 2] record_interval_effect [OF 3]
    show ?thesis by auto
  qed
qed

lemma clear_buffers_effect:
  "schedule_of (clear_buffers c s) = schedule_of s \<and> block_args (clear_buffers c s) = block_args s
   \<and> sim_output_activation (clear_buffers c s) = sim_output_activation s
   \<and> sim_fix_bold (clear_buffers c s) = sim_fix_bold s
   \<and> sim_store (clear_buffers c s) = sim_store s
   \<and> sim_time_idxs_dict (clear_buffers c s) = sim_time_idxs_dict s"
  by (simp add: clear_buffers_def schedule_of_def block_args_def Let_def)

lemma task_step_effect:
  assumes "task_step run simulateBOLD g syn_act i s = Inr s'"
  shows "schedule_of s' = schedule_of s \<and> block_args s' = block_args s
       \<and> sim_output_activation s' = sim_output_activation s \<and> sim_fix_bold s' = sim_fix_bold s
       \<and> zeroed_only (sim_store s) (sim_store s')
       \<and> (\<exists>name c. py_index (sim_task_name_list s) i = Inr name
              \<and> py_getitem (sim_Wij_task_dict s) name = Inr c
              \<and> installed c (sim_store s) (sim_store s'))"
proof -
  from assms obtain name c onset_time duration s1 s2 s3 s4 where
    n: "py_index (sim_task_name_list s) i = Inr name"
    and c: "py_getitem (sim_Wij_task_dict s) name = Inr c"
    and 1: "generate_single_block run s c duration (g_activity g) (g_a_s_rate g) syn_act = Inr s1"
    and 2: "bold_after_block simulateBOLD g False s1 = Inr s2"
    and 3: "record_interval s2 name onset_time (onset_time + duration) = Inr s3"
    and 4: "following_rest run simulateBOLD g syn_act i onset_time duration s3 = Inr s4"
    and 5: "s' = clear_buffers (g_clear_raw g) s4"
    unfolding task_step_def by (elim bind_res_InrE) auto
  note e1 = generate_single_block_effect [OF 1] and z1 = generate_single_block_zeroed [OF 1]
    and e2 = bold_after_block_effect [OF 2] and e3 = record_interval_effect [OF 3]
    and e4 = following_rest_effect [OF 4] and e5 = clear_buffers_effect [of "g_clear_raw g" s4]
  have st3: "sim_store s3 = sim_store s1" using e2 e3 by auto
  have z: "zeroed_only (sim_store s) (sim_store s')"
    using z1 e4 st3 e5 5 by (auto intro: zeroed_only_trans)
  have "installed c (sim_store s) (sim_store s')"
    using z1 e4 st3 e5 5 by (auto intro: installed_then_zeroed)
  with z n c e1 e2 e3 e4 e5 5 show ?thesis by auto
qed

lemma task_loop_effect:
  assumes "task_loop run simulateBOLD g syn_act idxs s = Inr s'"
  shows "schedule_of s' = schedule_of s \<and> block_args s' = block_args s
       \<and> sim_output_activation s' = sim_output_activation s \<and> sim_fix_bold s' = sim_fix_bold s
       \<and> zeroed_only (sim_store s) (sim_store s')
       \<and> list_all (\<lambda>i. \<exists>name c. py_index (sim_task_name_list s) i = Inr name
              \<and> py_getitem (sim_Wij_task_dict s) name = Inr c
              \<and> installed c (sim_store s) (sim_store s')) idxs"
  using assms
proof (induction idxs arbitrary: s)
  case Nil
  then show ?case by (simp add: zeroed_only_refl)
next
  case (Cons i idxs)
  from Cons.prems obtain s1 where
    1: "task_step run simulateBOLD g syn_act i s = Inr s1"
    and 2: "task_loop run simulateBOLD g syn_act idxs s1 = Inr s'"
    by (auto elim!: bind_res_InrE)
  note e1 = task_step_effect [OF 1] and e2 = Cons.IH [OF 2]
  from e1 have sch: "sim_task_name_list s1 = sim_task_name_list s"
      "sim_Wij_task_dict s1 = sim_Wij_task_dict s"
    by (simp_all add: schedule_of_def)
  from e1 obtain name c where nc: "py_index (sim_task_name_list s) i = Inr name"
     "py_getitem (sim_Wij_task_dict s) name = Inr c" "installed c (sim_store s) (sim_store s1)"
    by blast
  have z: "zeroed_only (sim_store s) (sim_store s')"
    using e1 e2 by (auto intro: zeroed_only_trans)
  have hd: "installed c (sim_store s) (sim_store s')"
    using nc e2 by (auto intro: installed_then_zeroed)
  have tl: "list_all (\<lambda>i. \<exists>name c. py_index (sim_task_name_list s) i = Inr name
              \<and> py_getitem (sim_Wij_task_dict s) name = Inr c
              \<and> installed c (sim_store s) (sim_store s')) idxs"
    unfolding list_all_iff
  proof
    fix j assume j: "j \<in> set idxs"
    from e2 have "list_all (\<lambda>i. \<exists>name c. py_index (sim_task_name_list s1) i = Inr name
              \<and> py_getitem (sim_Wij_task_dict s1) name = Inr c
              \<and> installed c (sim_store s1) (sim_store s')) idxs" by simp
    with j sch obtain name' c' where
      "py_index (sim_task_name_list s) j = Inr name'"
      "py_getitem (sim_Wij_task_dict s) name' = Inr c'"
      "installed c' (sim_store s1) (sim_store s')"
      unfolding list_all_iff by auto
    moreover from e1 have "zeroed_only (sim_store s) (sim_store s1)" by simp
    ultimately show "\<exists>name c. py_index (sim_task_name_list s) j = Inr name
              \<and> py_getitem (sim_Wij_task_dict s) name = Inr c
              \<and> installed c (sim_store s) (sim_store s')"
      by (blast intro: zeroed_then_installed)
  qed
  from z hd tl nc e1 e2 show ?case by auto
qed

lemma installed_all_after_zeroed:
  assumes "list_all (\<lambda>i. \<exists>name c. P i name \<and> Q name c \<and> installed c st1 st2) xs"
    and "zeroed_only st st1"
  shows "list_all (\<lambda>i. \<exists>name c. P i name \<and> Q name c \<and> installed c st st2) xs"
  using assms
  by (induction xs) (auto intro: zeroed_then_installed)

lemma seed_bold_effect:
  assumes "seed_bold simulateBOLD g c s = Inr s'"
  shows "schedule_of s' = schedule_of s \<and> block_args s' = block_args s
       \<and> sim_time_idxs_dict s' = sim_time_idxs_dict s
       \<and> sim_store s' = sim_store s \<and> sim_wc s' = sim_wc s
       \<and> sim_output_activation s' = sim_output_activation s \<and> sim_fix_bold s' = sim_fix_bold s"
proof (cases "g_bold_chunkwise g")
  case True
  with assms have "bold_after_block simulateBOLD g True s = Inr s'"
    unfolding seed_bold_def by (auto split: if_splits elim!: bind_res_InrE)
  then show ?thesis by (rule bold_after_block_effect)
next
  case False
  with assms show ?thesis by (simp add: seed_bold_def)
qed

lemma configure_effect:
  "schedule_of (snd (configure g s)) = schedule_of s
   \<and> sim_store (snd (configure g s)) = sim_store s
   \<and> sim_wc (snd (configure g s)) = sim_wc s
   \<and> sim_time_idxs_dict (snd (configure g s)) = sim_time_idxs_dict s"
  by (simp add: configure_def schedule_of_def Let_def)

lemma run_blocks_effect:
  assumes "run_blocks run simulateBOLD g s = Inr s'"
  shows "schedule_of s' = schedule_of s
       \<and> zeroed_only (sim_store s) (sim_store s')
       \<and> installed (sim_Wij_rest s) (sim_store s) (sim_store s')
       \<and> list_all (\<lambda>i. \<exists>name c. py_index (sim_task_name_list s) i = Inr name
              \<and> py_getitem (sim_Wij_task_dict s) name = Inr c
              \<and> installed c (sim_store s) (sim_store s')) [0 ..< length (sim_onset_time_list s)]"
proof -
  let ?syn = "g_output_activation g \<noteq> ''exc''"
  let ?idxs = "[0 ..< length (sim_onset_time_list s)]"
  from assms obtain c s1 s2 where
    1: "generate_first_rest run s (g_activity g) (g_a_s_rate g) ?syn = Inr s1"
    and 2: "seed_bold simulateBOLD g c s1 = Inr s2"
    and 3: "task_loop run simulateBOLD g ?syn ?idxs s2 = Inr s'"
    unfolding run_blocks_def Let_def by (elim bind_res_InrE) blast
  note e1 = generate_first_rest_effect [OF 1] and e2 = seed_bold_effect [OF 2]
    and e3 = task_loop_effect [OF 3]
  have sch2: "schedule_of s2 = schedule_of s" using e1 e2 by simp
  then have f2: "sim_task_name_list s2 = sim_task_name_list s"
    "sim_Wij_task_dict s2 = sim_Wij_task_dict s"
    by (simp_all add: schedule_of_def)
  have st2: "sim_store s2 = sim_store s1" using e2 by simp
  have z1: "zeroed_only (sim_store s) (sim_store s2)" using e1 st2 by simp
  have z: "zeroed_only (sim_store s) (sim_store s')"
    using z1 e3 by (blast intro: zeroed_only_trans)
  have r: "installed (sim_Wij_rest s) (sim_store s) (sim_store s')"
    using e1 st2 e3 by (auto intro: installed_then_zeroed)
  have l: "list_all (\<lambda>i. \<exists>name c. py_index (sim_task_name_list s) i = Inr name
              \<and> py_getitem (sim_Wij_task_dict s) name = Inr c
              \<and> installed c (sim_store s) (sim_store s')) ?idxs"
  proof -
    from e3 f2 have "list_all (\<lambda>i. \<exists>name c. py_index (sim_task_name_list s) i = Inr name
              \<and> py_getitem (sim_Wij_task_dict s) name = Inr c
              \<and> installed c (sim_store s2) (sim_store s')) ?idxs" by simp
    from installed_all_after_zeroed [OF this z1] show ?thesis .
  qed
  from sch2 e3 z r l show ?thesis by simp
qed

text \<open>
  C10 (installing a block's coupling matrix zeroes the diagonal of the very
  array passed in, so after a run the caller's rest matrix and every task matrix
  that was installed have a zeroed diagonal). One block writes the zeroed array
  at the address it was given; after a run that returns, the object still holds
  the same references, the array behind \<open>Wij_rest\<close> and the array behind the
  entry of \<open>Wij_task_dict\<close> of every task of the design are the arrays of the
  start with the diagonal zeroed, and every other array is unchanged or zeroed
  on its diagonal.
\<close>

theorem C10_installed_matrices_zeroed_in_place:
  "(generate_single_block run s0 c d activity_flag a_s_rate syn_act = Inr s1 \<longrightarrow>
      sim_store s1 c = fill_diagonal (sim_store s0 c) 0)
   \<and> (snd (generate_full_series run simulateBOLD g s) = Inr s' \<longrightarrow>
        sim_Wij_rest s' = sim_Wij_rest s \<and> sim_Wij_task_dict s' = sim_Wij_task_dict s
      \<and> sim_store s' (sim_Wij_rest s) = fill_diagonal (sim_store s (sim_Wij_rest s)) 0
      \<and> list_all (\<lambda>i. \<exists>name c. py_index (sim_task_name_list s) i = Inr name
              \<and> py_getitem (sim_Wij_task_dict s) name = Inr c
              \<and> sim_store s' c = fill_diagonal (sim_store s c) 0)
           [0 ..< length (sim_onset_time_list s)]
      \<and> zeroed_only (sim_store s) (sim_store s'))"
proof (intro conjI impI)
  assume "generate_single_block run s0 c d activity_flag a_s_rate syn_act = Inr s1"
  from generate_single_block_store [OF this]
  show "sim_store s1 c = fill_diagonal (sim_store s0 c) 0" by simp
next
  assume a: "snd (generate_full_series run simulateBOLD g s) = Inr s'"
  let ?s = "snd (configure g s)"
  from a have "run_blocks run simulateBOLD g ?s = Inr s'"
    by (simp add: generate_full_series_def split: prod.splits)
  from run_blocks_effect [OF this] configure_effect [of g s]
  have e: "schedule_of s' = schedule_of s"
       "zeroed_only (sim_store s) (sim_store s')"
       "installed (sim_Wij_rest s) (sim_store s) (sim_store s')"
       "list_all (\<lambda>i. \<exists>name c. py_index (sim_task_name_list s) i = Inr name
              \<and> py_getitem (sim_Wij_task_dict s) name = Inr c
              \<and> installed c (sim_store s) (sim_store s')) [0 ..< length (sim_onset_time_list s)]"
    by (simp_all add: schedule_of_def)
  from e(1) show "sim_Wij_rest s' = sim_Wij_rest s" "sim_Wij_task_dict s' = sim_Wij_task_dict s"
    by (simp_all add: schedule_of_def)
  from e(3) show "sim_store s' (sim_Wij_rest s) = fill_diagonal (sim_store s (sim_Wij_rest s)) 0"
    by (simp add: installed_def)
  from e(4) show "list_all (\<lambda>i. \<exists>name c. py_index (sim_task_name_list s) i = Inr name
              \<and> py_getitem (sim_Wij_task_dict s) name = Inr c
              \<and> sim_store s' c = fill_diagonal (sim_store s c) 0)
           [0 ..< length (sim_onset_time_list s)]"
    by (simp add: installed_def)
  from e(2) show "zeroed_only (sim_store s) (sim_store s')" .
qed

theorem C10_installed_matrices_zeroed_in_place_witness:
  "\<exists>s'. snd (generate_full_series example_run example_integrator example_args example_sim) = Inr s'
      \<and> sim_Wij_rest s' = 0 \<and> sim_Wij_task_dict s' = [(''A'', 1)]
      \<and> sim_store s' 0 = [[0, 1], [1, 0]]
      \<and> sim_store s' 1 = [[0, 5], [5, 0]]"
proof -
  let ?r = "snd (generate_full_series example_run example_integrator example_args example_sim)"
  have "\<not> isl ?r" by code_simp
  then obtain s' where s': "?r = Inr s'" by (cases ?r) auto
  have f: "fill_diagonal [[7, 1], [1, 7]] 0 = [[0, 1], [1, 0]]"
     "fill_diagonal [[7, 5], [5, 7]] 0 = [[0, 5], [5, 0]]"
    by (simp_all add: fill_diagonal_def upt_rec)
  from C10_installed_matrices_zeroed_in_place
         [of example_run example_sim 0 8 True 2 True example_sim example_integrator example_args
            example_sim s'] s'
  have "sim_Wij_rest s' = 0 \<and> sim_Wij_task_dict s' = [(''A'', 1)]
      \<and> sim_store s' 0 = [[0, 1], [1, 0]]
      \<and> sim_store s' 1 = [[0, 5], [5, 0]]"
    by (simp add: example_sim_def example_store_def f py_index_def py_getitem_def)
  with s' show ?thesis by blast
qed


subsection \<open>Which errors a step can raise\<close>

lemma bind_res_neq_Inl:
  assumes "r \<noteq> Inl e" and "\<And>x. r = Inr x \<Longrightarrow> f x \<noteq> Inl e"
  shows "bind_res r f \<noteq> Inl e"
  using assms by (cases r) (auto simp: bind_res_def)

lemma no_assertion_builtin:
  "py_index xs i \<noteq> Inl (AssertionError m)"
  "py_last xs \<noteq> Inl (AssertionError m)"
  "py_getitem d k \<noteq> Inl (AssertionError m)"
  "py_div a b \<noteq> Inl (AssertionError m)"
  "py_fmod a b \<noteq> Inl (AssertionError m)"
  "py_slice_from start step ys \<noteq> Inl (AssertionError m)"
  "hstack_opt old new \<noteq> Inl (AssertionError m)"
  by (auto simp: py_index_def py_last_def py_getitem_def py_div_def py_fmod_def
      py_slice_from_def hstack_opt_def Let_def split: list.splits option.splits)

lemma bind_res_InlE:
  assumes "bind_res r f = Inl e"
  obtains "r = Inl e" | x where "r = Inr x" and "f x = Inl e"
  using assms by (cases r) (auto simp: bind_res_def)

lemma no_assertion_HRF_init: "HRF_init n dt tr ni nm fx \<noteq> Inl (AssertionError m)"
  unfolding HRF_init_def by (auto simp: no_assertion_builtin elim!: bind_res_InlE)

lemma no_assertion_resample: "resample_to_TR h sig i \<noteq> Inl (AssertionError m)"
  unfolding resample_to_TR_def Let_def
  by (auto simp: no_assertion_builtin elim!: bind_res_InlE)

lemma bw_convolve_not_first_rest_error:
  "bw_convolve simulateBOLD h a ap \<noteq> Inl first_rest_error"
  unfolding bw_convolve_def Let_def
  by (auto simp: no_assertion_resample split: prod.splits if_splits elim!: bind_res_InlE)

lemma save_activity_no_assertion: "save_activity s r syn \<noteq> Inl (AssertionError m)"
  unfolding save_activity_def Let_def
  by (auto simp: no_assertion_builtin split: option.splits if_splits elim!: bind_res_InlE)

lemma generate_single_block_not_first_rest_error:
  "generate_single_block run s c d af r syn \<noteq> Inl first_rest_error"
  unfolding generate_single_block_def Let_def
  by (auto simp: no_assertion_builtin save_activity_no_assertion
      split: prod.splits if_splits elim!: bind_res_InlE)

lemma record_interval_no_assertion: "record_interval s l a b \<noteq> Inl (AssertionError m)"
  unfolding record_interval_def
  by (auto simp: no_assertion_builtin elim!: bind_res_InlE)

lemma chunk_input_no_assertion: "chunk_input s ty r \<noteq> Inl (AssertionError m)"
  unfolding chunk_input_def
  by (auto simp: no_assertion_builtin elim!: bind_res_InlE)

lemma process_chunk_not_first_rest_error:
  "process_chunk simulateBOLD s c new_exc is_first \<noteq> Inl first_rest_error"
proof
  assume a: "process_chunk simulateBOLD s c new_exc is_first = Inl first_rest_error"
  show False
  proof (cases "c < real (length new_exc)")
    case False
    with a show False by (simp add: process_chunk_def)
  next
    case True
    with a show False
      unfolding process_chunk_def Let_def
      by (auto simp: no_assertion_builtin
            bw_convolve_not_first_rest_error
          split: option.splits elim!: bind_res_InlE)
  qed
qed

lemmas not_first_rest_error_unfolded =
  process_chunk_not_first_rest_error bw_convolve_not_first_rest_error
  generate_single_block_not_first_rest_error

lemma generate_bold_chunkwise_not_first_rest_error:
  "generate_bold_chunkwise simulateBOLD s tr ty nm is_first fx \<noteq> Inl first_rest_error"
  unfolding generate_bold_chunkwise_def Let_def
  by (auto simp: no_assertion_builtin no_assertion_HRF_init chunk_input_no_assertion
        not_first_rest_error_unfolded
      split: if_splits option.splits elim!: bind_res_InlE)

lemma bold_after_block_not_first_rest_error:
  "bold_after_block simulateBOLD g is_first s \<noteq> Inl first_rest_error"
  unfolding bold_after_block_def
  by (auto simp: generate_bold_chunkwise_not_first_rest_error
      split: option.splits)

lemma generate_last_rest_not_first_rest_error:
  "generate_last_rest run s af r syn \<noteq> Inl first_rest_error"
  unfolding generate_last_rest_def Let_def
  by (auto simp: no_assertion_builtin record_interval_no_assertion not_first_rest_error_unfolded
      elim!: bind_res_InlE)

lemma following_rest_not_first_rest_error:
  "following_rest run simulateBOLD g syn i onset_time duration s \<noteq> Inl first_rest_error"
  unfolding following_rest_def Let_def
  by (auto simp: no_assertion_builtin record_interval_no_assertion not_first_rest_error_unfolded
        generate_last_rest_not_first_rest_error bold_after_block_not_first_rest_error
      split: if_splits elim!: bind_res_InlE)

lemma task_step_not_first_rest_error:
  "task_step run simulateBOLD g syn i s \<noteq> Inl first_rest_error"
  unfolding task_step_def
  by (auto simp: no_assertion_builtin record_interval_no_assertion not_first_rest_error_unfolded
        following_rest_not_first_rest_error bold_after_block_not_first_rest_error
      elim!: bind_res_InlE)

lemma task_loop_not_first_rest_error:
  "task_loop run simulateBOLD g syn idxs s \<noteq> Inl first_rest_error"
  by (induction idxs arbitrary: s)
     (auto simp: task_step_not_first_rest_error
      elim!: bind_res_InlE)

text \<open>
  C8 (with chunkwise hemodynamic generation, a first rest block of fewer fine
  samples than one repetition-time window makes the run fail with the error of
  the first-block check, and a first block of at least that many samples raises
  no such error). Here \<open>chunksize\<close> is \<open>TR * 1000 / dt\<close>, \<open>s1\<close> the object after the
  first rest block and \<open>e\<close> the excitatory output the model holds then.
\<close>

theorem C8_first_block_must_fill_a_window:
  assumes chunk: "g_bold_chunkwise g"
    and c: "py_div (g_TR g * 1000) (p_dt (wc_params (sim_wc s))) = Inr chunksize"
    and s1: "generate_first_rest run (snd (configure g s)) (g_activity g) (g_a_s_rate g)
               (g_output_activation g \<noteq> ''exc'') = Inr s1"
    and e: "py_getitem (wc_outputs (sim_wc s1)) ''exc'' = Inr e"
  shows "(real (length e) < chunksize \<longrightarrow>
            snd (generate_full_series run simulateBOLD g s) = Inl first_rest_error)
       \<and> (chunksize \<le> real (length e) \<longrightarrow>
            snd (generate_full_series run simulateBOLD g s) \<noteq> Inl first_rest_error)"
proof -
  let ?s = "snd (configure g s)"
  let ?loop = "task_loop run simulateBOLD g (g_output_activation g \<noteq> ''exc'')
                 [0 ..< length (sim_onset_time_list ?s)]"
  have wc: "sim_wc ?s = sim_wc s" using configure_effect [of g s] by simp
  have r: "snd (generate_full_series run simulateBOLD g s)
           = bind_res (seed_bold simulateBOLD g chunksize s1) ?loop"
    using chunk c s1 wc
    by (simp add: generate_full_series_def run_blocks_def bind_res_simps Let_def split_beta)
  have sb: "seed_bold simulateBOLD g chunksize s1
            = (if real (length e) < chunksize then Inl first_rest_error
               else bold_after_block simulateBOLD g True s1)"
    using chunk e by (simp add: seed_bold_def bind_res_simps)
  show ?thesis
  proof (intro conjI impI)
    assume "real (length e) < chunksize"
    with r sb show "snd (generate_full_series run simulateBOLD g s) = Inl first_rest_error"
      by (simp add: bind_res_simps)
  next
    assume "chunksize \<le> real (length e)"
    with sb have "seed_bold simulateBOLD g chunksize s1 = bold_after_block simulateBOLD g True s1"
      by simp
    moreover have "bind_res (bold_after_block simulateBOLD g True s1) ?loop \<noteq> Inl first_rest_error"
      by (rule bind_res_neq_Inl)
         (rule bold_after_block_not_first_rest_error, rule task_loop_not_first_rest_error)
    ultimately show "snd (generate_full_series run simulateBOLD g s) \<noteq> Inl first_rest_error"
      using r by simp
  qed
qed

theorem C8_first_block_must_fill_a_window_witness:
  "snd (generate_full_series example_run example_integrator (example_args\<lparr>g_TR := 20\<rparr>)
          example_sim) = Inl first_rest_error
   \<and> snd (generate_full_series example_run example_integrator example_args example_sim)
       \<noteq> Inl first_rest_error"
proof -
  let ?g = "example_args\<lparr>g_TR := 20\<rparr>"
  have cfg: "snd (configure ?g example_sim) = snd (configure example_args example_sim) \<lparr>sim_TR := Some 20\<rparr>"
    by (simp add: configure_def example_args_def Let_def)
  let ?f = "generate_first_rest example_run (snd (configure example_args example_sim)) True 2 True"
  let ?f' = "generate_first_rest example_run (snd (configure ?g example_sim)) True 2 True"
  have ev: "map_sum id (\<lambda>s1. map_sum id length (py_getitem (wc_outputs (sim_wc s1)) ''exc'')) ?f
            = Inr (Inr 8)"
    by code_simp
  have ev': "map_sum id (\<lambda>s1. map_sum id length (py_getitem (wc_outputs (sim_wc s1)) ''exc'')) ?f'
            = Inr (Inr 8)"
    by code_simp
  from ev obtain s1 e where s1: "?f = Inr s1"
    and e: "py_getitem (wc_outputs (sim_wc s1)) ''exc'' = Inr e" and l: "length e = 8"
    by (cases ?f; cases "py_getitem (wc_outputs (sim_wc (projr ?f))) ''exc''") auto
  from ev' obtain s1' e' where s1': "?f' = Inr s1'"
    and e': "py_getitem (wc_outputs (sim_wc s1')) ''exc'' = Inr e'" and l': "length e' = 8"
    by (cases ?f'; cases "py_getitem (wc_outputs (sim_wc (projr ?f'))) ''exc''") auto
  have a: "g_bold_chunkwise example_args" "g_activity example_args" "g_a_s_rate example_args = 2"
    "g_output_activation example_args \<noteq> ''exc''" "g_TR example_args = 2"
    by (simp_all add: example_args_def)
  have c: "py_div (g_TR example_args * 1000) (p_dt (wc_params (sim_wc example_sim))) = Inr 2"
     "py_div (g_TR ?g * 1000) (p_dt (wc_params (sim_wc example_sim))) = Inr 20"
    by (simp_all add: example_args_def example_sim_def py_div_def)
  from C8_first_block_must_fill_a_window
         [of example_args example_sim 2 example_run s1 e example_integrator] a c s1 e l
  have 1: "snd (generate_full_series example_run example_integrator example_args example_sim)
       \<noteq> Inl first_rest_error" by simp
  from C8_first_block_must_fill_a_window
         [of ?g example_sim 20 example_run s1' e' example_integrator] a c s1' e' l'
  have 2: "snd (generate_full_series example_run example_integrator ?g example_sim)
             = Inl first_rest_error" by simp
  from 1 2 show ?thesis by simp
qed

subsection \<open>The schedule of a run\<close>

lemma rest_block_schedule:
  assumes b: "generate_single_block run s (sim_Wij_rest s) d activity_flag a_s_rate syn_act = Inr s1"
    and r: "record_interval s1 ''Rest'' x y = Inr s'"
  shows "schedule_of s' = schedule_of s \<and> block_args s' = block_args s
       \<and> sim_output_activation s' = sim_output_activation s \<and> sim_fix_bold s' = sim_fix_bold s
       \<and> (\<exists>l. py_getitem (sim_time_idxs_dict s) ''Rest'' = Inr l
             \<and> sim_time_idxs_dict s'
                 = AList.update ''Rest'' (l @ [(round3 x, round3 y)]) (sim_time_idxs_dict s))
       \<and> (sim_store s', sim_wc s')
           = run_block run (block_args s) (sim_Wij_rest s) d (sim_store s) (sim_wc s)"
  using generate_single_block_effect [OF b] record_interval_effect [OF r] by auto

lemma generate_first_rest_schedule:
  assumes "generate_first_rest run s activity_flag a_s_rate syn_act = Inr s'"
  shows "\<exists>onset0. py_index (sim_onset_time_list s) 0 = Inr onset0
       \<and> schedule_of s' = schedule_of s \<and> block_args s' = block_args s
       \<and> sim_output_activation s' = sim_output_activation s \<and> sim_fix_bold s' = sim_fix_bold s
       \<and> (\<exists>l. py_getitem (sim_time_idxs_dict s) ''Rest'' = Inr l
             \<and> sim_time_idxs_dict s'
                 = AList.update ''Rest''
                     (l @ [(round3 (if sim_rest_before s then - sim_first_duration s else 0),
                            round3 onset0)])
                     (sim_time_idxs_dict s))
       \<and> (sim_store s', sim_wc s')
           = run_block run (block_args s) (sim_Wij_rest s)
               (if sim_rest_before s then sim_first_duration s + onset0 else onset0)
               (sim_store s) (sim_wc s)"
proof -
  from assms obtain onset0 s1 where o: "py_index (sim_onset_time_list s) 0 = Inr onset0"
    and b: "generate_single_block run s (sim_Wij_rest s)
              (if sim_rest_before s then sim_first_duration s + onset0 else onset0)
              activity_flag a_s_rate syn_act = Inr s1"
    and r: "record_interval s1 ''Rest'' (if sim_rest_before s then - sim_first_duration s else 0)
              onset0 = Inr s'"
    unfolding generate_first_rest_def Let_def
    by (elim bind_res_InrE) (auto split: if_splits)
  from rest_block_schedule [OF b r] o show ?thesis by blast
qed

lemma generate_last_rest_schedule:
  assumes "generate_last_rest run s activity_flag a_s_rate syn_act = Inr s'"
  shows "\<exists>onset_last duration_last. py_last (sim_onset_time_list s) = Inr onset_last
       \<and> py_last (sim_duration_list s) = Inr duration_last
       \<and> schedule_of s' = schedule_of s \<and> block_args s' = block_args s
       \<and> sim_output_activation s' = sim_output_activation s \<and> sim_fix_bold s' = sim_fix_bold s
       \<and> (\<exists>l. py_getitem (sim_time_idxs_dict s) ''Rest'' = Inr l
             \<and> sim_time_idxs_dict s'
                 = AList.update ''Rest''
                     (l @ [(round3 (onset_last + duration_last),
                            round3 (onset_last + duration_last + sim_last_duration s))])
                     (sim_time_idxs_dict s))
       \<and> (sim_store s', sim_wc s')
           = run_block run (block_args s) (sim_Wij_rest s) (sim_last_duration s)
               (sim_store s) (sim_wc s)"
proof -
  from assms obtain onset_last duration_last s1 where
    o: "py_last (sim_onset_time_list s) = Inr onset_last"
    and d: "py_last (sim_duration_list s) = Inr duration_last"
    and b: "generate_single_block run s (sim_Wij_rest s) (sim_last_duration s)
              activity_flag a_s_rate syn_act = Inr s1"
    and r: "record_interval s1 ''Rest'' (onset_last + duration_last)
              (onset_last + duration_last + sim_last_duration s) = Inr s'"
    unfolding generate_last_rest_def Let_def
    by (elim bind_res_InrE) auto
  from rest_block_schedule [OF b r] o d show ?thesis by blast
qed

lemma round3_values:
  "round3 (- 6) = - 6" "round3 2 = 2" "round3 5 = 5" "round3 13 = 13"
  by (simp_all add: round3_def py_round_def)

lemma one_task_design_init:
  assumes "WCTaskSim_init new_model st (one_task_design d ra) = Inr s0"
  shows "schedule_of s0 = ([2], [3], [''A''], [(''A'', ra)], a_Wij_rest d, True, 6, 8)
       \<and> sim_time_idxs_dict s0 = [(''Rest'', []), (''A'', [])]
       \<and> sim_store s0 = st"
  using assms unfolding WCTaskSim_init_def one_task_design_def Let_def
  by (auto simp: np_diff_def schedule_of_def bind_res_simps elim!: bind_res_InrE)


lemma task_loop_single:
  "task_loop run simulateBOLD g syn [0 ..< 1] s = task_step run simulateBOLD g syn 0 s"
  by (cases "task_step run simulateBOLD g syn 0 s") (simp_all add: bind_res_simps)

text \<open>
  C9 (the design with one task \<open>A\<close> at 2 s for 3 s, 6 s of rest before and 8 s
  after runs three blocks in order, rest over \<open>[-6, 2]\<close>, \<open>A\<close> over \<open>[2, 5]\<close>, rest
  over \<open>[5, 13]\<close>, and the time-index map is
  \<open>{Rest: [[-6, 2], [5, 13]], A: [[2, 5]]}\<close>). Every run of the object built
  from this design that returns has this map, and its store and model handle
  are those of three swaps and continued integrations in this order: the rest
  matrix for 8 s, the matrix of \<open>A\<close> for 3 s, the rest matrix for 8 s.
\<close>

theorem C9_one_task_run:
  assumes init: "WCTaskSim_init new_model st (one_task_design d ra) = Inr s0"
    and run: "snd (generate_full_series run simulateBOLD g s0) = Inr s'"
  shows "sim_time_idxs_dict s' = [(''Rest'', [(- 6, 2), (5, 13)]), (''A'', [(2, 5)])]
       \<and> (sim_store s', sim_wc s')
           = (case run_block run (block_args (snd (configure g s0))) (a_Wij_rest d) 8 st
                     (sim_wc s0) of
                (st1, w1) \<Rightarrow>
                  (case run_block run (block_args (snd (configure g s0))) ra 3 st1 w1 of
                     (st2, w2) \<Rightarrow>
                       (case run_block run (block_args (snd (configure g s0))) (a_Wij_rest d) 8
                               st2 w2 of
                          (st3, w3) \<Rightarrow>
                            (st3, sim_wc (clear_buffers (g_clear_raw g) (s0\<lparr>sim_wc := w3\<rparr>))))))"
proof -
  let ?sc = "snd (configure g s0)"
  let ?a = "block_args ?sc"
  let ?syn = "g_output_activation g \<noteq> ''exc''"
  note i0 = one_task_design_init [OF init]
  note cf = configure_effect [of g s0]
  have sch: "schedule_of ?sc = ([2], [3], [''A''], [(''A'', ra)], a_Wij_rest d, True, 6, 8)"
    and d0: "sim_time_idxs_dict ?sc = [(''Rest'', []), (''A'', [])]"
    and st0: "sim_store ?sc = st" and w0: "sim_wc ?sc = sim_wc s0"
    using i0 cf by simp_all
  from run have "run_blocks run simulateBOLD g ?sc = Inr s'"
    by (simp add: generate_full_series_def split_beta)
  then obtain c s1 s2 where
    1: "generate_first_rest run ?sc (g_activity g) (g_a_s_rate g) ?syn = Inr s1"
    and 2: "seed_bold simulateBOLD g c s1 = Inr s2"
    and 3: "task_loop run simulateBOLD g ?syn [0 ..< length (sim_onset_time_list ?sc)] s2 = Inr s'"
    unfolding run_blocks_def Let_def by (elim bind_res_InrE) blast
  \<comment> \<open>the first rest block\<close>
  from generate_first_rest_schedule [OF 1] sch d0 st0 w0
  have sch1: "schedule_of s1 = ([2], [3], [''A''], [(''A'', ra)], a_Wij_rest d, True, 6, 8)"
    and a1: "block_args s1 = ?a"
    and d1: "sim_time_idxs_dict s1 = [(''Rest'', [(- 6, 2)]), (''A'', [])]"
    and b1: "(sim_store s1, sim_wc s1) = run_block run ?a (a_Wij_rest d) 8 st (sim_wc s0)"
    by (auto simp: schedule_of_def py_index_def py_getitem_def round3_values)
  from seed_bold_effect [OF 2] sch1 a1 d1 b1
  have sch2: "schedule_of s2 = ([2], [3], [''A''], [(''A'', ra)], a_Wij_rest d, True, 6, 8)"
    and a2: "block_args s2 = ?a"
    and d2: "sim_time_idxs_dict s2 = [(''Rest'', [(- 6, 2)]), (''A'', [])]"
    and b2: "(sim_store s2, sim_wc s2) = run_block run ?a (a_Wij_rest d) 8 st (sim_wc s0)"
    by simp_all
  \<comment> \<open>the task block\<close>
  from 3 sch have "task_step run simulateBOLD g ?syn 0 s2 = Inr s'"
    by (simp add: schedule_of_def task_loop_single [simplified])
  then obtain name cm onset_time duration t1 t2 t3 t4 where
    n: "py_index (sim_task_name_list s2) 0 = Inr name"
    and cm: "py_getitem (sim_Wij_task_dict s2) name = Inr cm"
    and on: "py_index (sim_onset_time_list s2) 0 = Inr onset_time"
    and du: "py_index (sim_duration_list s2) 0 = Inr duration"
    and 4: "generate_single_block run s2 cm duration (g_activity g) (g_a_s_rate g) ?syn = Inr t1"
    and 5: "bold_after_block simulateBOLD g False t1 = Inr t2"
    and 6: "record_interval t2 name onset_time (onset_time + duration) = Inr t3"
    and 7: "following_rest run simulateBOLD g ?syn 0 onset_time duration t3 = Inr t4"
    and 8: "s' = clear_buffers (g_clear_raw g) t4"
    unfolding task_step_def by (elim bind_res_InrE) auto
  from n cm on du sch2 have v: "name = ''A''" "cm = ra" "onset_time = 2" "duration = 3"
    by (auto simp: schedule_of_def py_index_def py_getitem_def)
  from generate_single_block_effect [OF 4] bold_after_block_effect [OF 5]
    record_interval_effect [OF 6] sch2 a2 d2 v
  have sch3: "schedule_of t3 = ([2], [3], [''A''], [(''A'', ra)], a_Wij_rest d, True, 6, 8)"
    and a3: "block_args t3 = ?a"
    and d3: "sim_time_idxs_dict t3 = [(''Rest'', [(- 6, 2)]), (''A'', [(2, 5)])]"
    and b3: "(sim_store t3, sim_wc t3) = run_block run ?a ra 3 (sim_store s2) (sim_wc s2)"
    by (auto simp: py_getitem_def round3_values)
  \<comment> \<open>the last rest block\<close>
  from 7 sch3 v obtain u1 where
    9: "generate_last_rest run t3 (g_activity g) (g_a_s_rate g) ?syn = Inr u1"
    and 10: "bold_after_block simulateBOLD g False u1 = Inr t4"
    unfolding following_rest_def by (auto simp: schedule_of_def elim!: bind_res_InrE)
  from generate_last_rest_schedule [OF 9] bold_after_block_effect [OF 10] sch3 a3 d3
  have d4: "sim_time_idxs_dict t4 = [(''Rest'', [(- 6, 2), (5, 13)]), (''A'', [(2, 5)])]"
    and b4: "(sim_store t4, sim_wc t4)
             = run_block run ?a (a_Wij_rest d) 8 (sim_store t3) (sim_wc t3)"
    by (auto simp: schedule_of_def py_last_def py_getitem_def round3_values)
  have cl: "sim_wc (clear_buffers (g_clear_raw g) t4)
            = sim_wc (clear_buffers (g_clear_raw g) (s0\<lparr>sim_wc := sim_wc t4\<rparr>))"
    by (simp add: clear_buffers_def Let_def)
  from 8 d4 clear_buffers_effect [of "g_clear_raw g" t4]
  have "sim_time_idxs_dict s' = [(''Rest'', [(- 6, 2), (5, 13)]), (''A'', [(2, 5)])]"
    by simp
  moreover from 8 b2 b3 b4 cl clear_buffers_effect [of "g_clear_raw g" t4]
  have "(sim_store s', sim_wc s')
           = (case run_block run ?a (a_Wij_rest d) 8 st (sim_wc s0) of
                (st1, w1) \<Rightarrow>
                  (case run_block run ?a ra 3 st1 w1 of
                     (st2, w2) \<Rightarrow>
                       (case run_block run ?a (a_Wij_rest d) 8 st2 w2 of
                          (st3, w3) \<Rightarrow>
                            (st3, sim_wc (clear_buffers (g_clear_raw g) (s0\<lparr>sim_wc := w3\<rparr>))))))"
    by (auto split: prod.splits)
  ultimately show ?thesis by simp
qed

theorem C9_one_task_run_witness:
  "\<exists>s'. snd (generate_full_series example_run example_integrator example_args example_sim) = Inr s'
      \<and> sim_time_idxs_dict s' = [(''Rest'', [(- 6, 2), (5, 13)]), (''A'', [(2, 5)])]
      \<and> wc_internal (sim_wc s') = 19"
proof -
  let ?r = "snd (generate_full_series example_run example_integrator example_args example_sim)"
  have init: "WCTaskSim_init example_model example_store (one_task_design example_design 1)
              = Inr example_sim"
    using example_sim_init by (simp add: one_task_design_def example_design_def)
  have "\<not> isl ?r" by code_simp
  then obtain s' where s': "?r = Inr s'" by (cases ?r) auto
  have w: "wc_internal (sim_wc (projr ?r)) = 19" by code_simp
  from C9_one_task_run [OF init s'] s' w show ?thesis by simp
qed

subsection \<open>The run with chunkwise generation\<close>

text \<open>
  What the chunkwise calls keep: the settings of the stage and the presence of a
  leftover buffer; the blocks leave both alone.
\<close>

lemma bind_res_cong_Inr:
  assumes "m = m'" and "\<And>x. m' = Inr x \<Longrightarrow> f x = f' x"
  shows "bind_res m f = bind_res m' f'"
  using assms by (cases m') (simp_all add: bind_res_simps)

lemma bw_convolve_settings:
  assumes "bw_convolve simulateBOLD h a ap = Inr h'"
  shows "stage_settings h' = stage_settings h"
  using assms unfolding bw_convolve_def Let_def
  by (auto simp: stage_settings_def split: if_splits prod.splits elim!: bind_res_InrE)

lemma process_chunk_stage:
  assumes "process_chunk simulateBOLD s c new_exc is_first = Inr s'"
  shows "map_option stage_settings (sim_hrf s') = map_option stage_settings (sim_hrf s)
       \<and> (\<exists>r. sim_input_rest s' = Some r)"
proof (cases "c < real (length new_exc)")
  case True
  with assms obtain h h' where "sim_hrf s = Some h" "sim_hrf s' = Some h'"
    "bw_convolve simulateBOLD h
       (py_upto (py_int (real (length new_exc) - projr (py_fmod (real (length new_exc)) c))) new_exc)
       (\<not> is_first) = Inr h'"
    "\<exists>r. sim_input_rest s' = Some r"
    unfolding process_chunk_def Let_def
    by (auto split: option.splits elim!: bind_res_InrE)
  with bw_convolve_settings show ?thesis by auto
next
  case False
  with assms have "s' = s\<lparr> sim_input_rest := Some new_exc \<rparr>"
    by (simp add: process_chunk_def)
  then show ?thesis by simp
qed

lemma generate_bold_chunkwise_first_stage:
  assumes "generate_bold_chunkwise simulateBOLD s tr input_type norm_max True fix = Inr s'"
  shows "\<exists>h0 h. HRF_init (p_N (wc_params (sim_wc s))) (p_dt (wc_params (sim_wc s))) tr True
                  norm_max fix = Inr h0
             \<and> sim_hrf s' = Some h \<and> stage_settings h = stage_settings h0
             \<and> (\<exists>r. sim_input_rest s' = Some r)"
proof -
  from assms obtain c new_exc h0 where
    h0: "HRF_init (p_N (wc_params (sim_wc s))) (p_dt (wc_params (sim_wc s))) tr True norm_max fix
           = Inr h0"
    and 2: "process_chunk simulateBOLD (s\<lparr>sim_TR := Some tr, sim_hrf := Some h0\<rparr>) c new_exc True
              = Inr s'"
    unfolding generate_bold_chunkwise_def Let_def
    by (auto simp: bind_res_simps split: if_splits elim!: bind_res_InrE)
  from process_chunk_stage [OF 2] h0 show ?thesis by auto
qed

lemma generate_bold_chunkwise_next_stage:
  assumes "generate_bold_chunkwise simulateBOLD s tr input_type norm_max False fix = Inr s'"
  shows "map_option stage_settings (sim_hrf s') = map_option stage_settings (sim_hrf s)
       \<and> (\<exists>r. sim_input_rest s' = Some r)"
proof -
  from assms obtain c new_exc where
    2: "process_chunk simulateBOLD (s\<lparr>sim_TR := Some tr\<rparr>) c new_exc False = Inr s'"
    unfolding generate_bold_chunkwise_def Let_def
    by (auto simp: bind_res_simps split: if_splits elim!: bind_res_InrE)
  from process_chunk_stage [OF 2] show ?thesis by auto
qed

lemma bold_after_block_next_stage:
  assumes "bold_after_block simulateBOLD g False s = Inr s'"
  shows "map_option stage_settings (sim_hrf s') = map_option stage_settings (sim_hrf s)
       \<and> ((\<exists>r. sim_input_rest s = Some r) \<longrightarrow> (\<exists>r. sim_input_rest s' = Some r))"
proof (cases "g_bold_chunkwise g")
  case True
  with assms obtain ty fx where
    "generate_bold_chunkwise simulateBOLD s (g_TR g) ty (g_normalize_max g) False fx = Inr s'"
    by (auto simp: bold_after_block_def split: option.splits)
  from generate_bold_chunkwise_next_stage [OF this] show ?thesis by simp
next
  case False
  with assms have "s' = s" by (simp add: bold_after_block_def)
  then show ?thesis by simp
qed

lemma generate_single_block_frame:
  assumes "generate_single_block run s Cmat duration activity_flag a_s_rate syn_act = Inr s'"
  shows "sim_hrf s' = sim_hrf s \<and> sim_input_rest s' = sim_input_rest s"
proof -
  obtain st w where rb: "run_block run (block_args s) Cmat duration (sim_store s) (sim_wc s) = (st, w)"
    by (cases "run_block run (block_args s) Cmat duration (sim_store s) (sim_wc s)")
  from assms rb have k: "(if activity_flag then save_activity (s\<lparr> sim_store := st, sim_wc := w \<rparr>) a_s_rate syn_act
                   else Inr (s\<lparr> sim_store := st, sim_wc := w \<rparr>)) = Inr s'"
    unfolding generate_single_block_def Let_def
    by (elim bind_res_InrE) (auto split: if_splits)
  show ?thesis
  proof (cases activity_flag)
    case True
    with k save_activity_effect [of "s\<lparr> sim_store := st, sim_wc := w \<rparr>" a_s_rate syn_act s']
    show ?thesis by auto
  next
    case False
    with k show ?thesis by auto
  qed
qed

lemma record_interval_frame:
  assumes "record_interval s label a b = Inr s'"
  shows "sim_hrf s' = sim_hrf s \<and> sim_input_rest s' = sim_input_rest s"
  using assms unfolding record_interval_def
  by (elim bind_res_InrE) auto

lemma generate_first_rest_frame:
  assumes "generate_first_rest run s activity_flag a_s_rate syn_act = Inr s'"
  shows "sim_hrf s' = sim_hrf s \<and> sim_input_rest s' = sim_input_rest s"
  using assms unfolding generate_first_rest_def Let_def
  by (elim bind_res_InrE) (auto dest!: generate_single_block_frame record_interval_frame)

lemma generate_last_rest_frame:
  assumes "generate_last_rest run s activity_flag a_s_rate syn_act = Inr s'"
  shows "sim_hrf s' = sim_hrf s \<and> sim_input_rest s' = sim_input_rest s"
  using assms unfolding generate_last_rest_def Let_def
  by (elim bind_res_InrE) (auto dest!: generate_single_block_frame record_interval_frame)

lemma following_rest_stage:
  assumes "following_rest run simulateBOLD g syn_act i onset_time duration s = Inr s'"
  shows "map_option stage_settings (sim_hrf s') = map_option stage_settings (sim_hrf s)
       \<and> ((\<exists>r. sim_input_rest s = Some r) \<longrightarrow> (\<exists>r. sim_input_rest s' = Some r))"
proof (cases "int i < int (length (sim_onset_time_list s)) - 1")
  case False
  with assms obtain s1 where
    1: "generate_last_rest run s (g_activity g) (g_a_s_rate g) syn_act = Inr s1"
    and 2: "bold_after_block simulateBOLD g False s1 = Inr s'"
    unfolding following_rest_def by (auto elim!: bind_res_InrE)
  from generate_last_rest_frame [OF 1] bold_after_block_next_stage [OF 2]
  show ?thesis by simp
next
  case True
  with assms obtain onset_next where
    k: "(if 0 < onset_next - onset_time - duration then
               bind_res (generate_single_block run s (sim_Wij_rest s)
                    (onset_next - onset_time - duration) (g_activity g)
                           (g_a_s_rate g) syn_act) (\<lambda>s1.
               bind_res (bold_after_block simulateBOLD g False s1) (\<lambda>s2.
                 record_interval s2 ''Rest'' (onset_time + duration) onset_next))
             else Inr s) = Inr s'"
    unfolding following_rest_def Let_def by (auto elim!: bind_res_InrE)
  show ?thesis
  proof (cases "0 < onset_next - onset_time - duration")
    case False
    with k have "s' = s" by simp
    then show ?thesis by simp
  next
    case True
    with k obtain s1 s2 where
      1: "generate_single_block run s (sim_Wij_rest s)
            (onset_next - onset_time - duration) (g_activity g) (g_a_s_rate g) syn_act = Inr s1"
      and 2: "bold_after_block simulateBOLD g False s1 = Inr s2"
      and 3: "record_interval s2 ''Rest'' (onset_time + duration) onset_next = Inr s'"
      by (auto elim!: bind_res_InrE)
    from generate_single_block_frame [OF 1] bold_after_block_next_stage [OF 2]
      record_interval_frame [OF 3]
    show ?thesis by simp
  qed
qed

lemma clear_buffers_frame:
  "sim_hrf (clear_buffers c s) = sim_hrf s \<and> sim_input_rest (clear_buffers c s) = sim_input_rest s"
  by (simp add: clear_buffers_def Let_def)

lemma task_step_stage:
  assumes "task_step run simulateBOLD g syn_act i s = Inr s'"
  shows "map_option stage_settings (sim_hrf s') = map_option stage_settings (sim_hrf s)
       \<and> ((\<exists>r. sim_input_rest s = Some r) \<longrightarrow> (\<exists>r. sim_input_rest s' = Some r))"
proof -
  from assms obtain name c onset_time duration s1 s2 s3 s4 where
    1: "generate_single_block run s c duration (g_activity g) (g_a_s_rate g) syn_act = Inr s1"
    and 2: "bold_after_block simulateBOLD g False s1 = Inr s2"
    and 3: "record_interval s2 name onset_time (onset_time + duration) = Inr s3"
    and 4: "following_rest run simulateBOLD g syn_act i onset_time duration s3 = Inr s4"
    and 5: "s' = clear_buffers (g_clear_raw g) s4"
    unfolding task_step_def by (elim bind_res_InrE) auto
  from generate_single_block_frame [OF 1] bold_after_block_next_stage [OF 2]
    record_interval_frame [OF 3] following_rest_stage [OF 4]
    clear_buffers_frame [of "g_clear_raw g" s4] 5
  show ?thesis by simp
qed

lemma task_loop_stage:
  assumes "task_loop run simulateBOLD g syn_act idxs s = Inr s'"
  shows "map_option stage_settings (sim_hrf s') = map_option stage_settings (sim_hrf s)
       \<and> ((\<exists>r. sim_input_rest s = Some r) \<longrightarrow> (\<exists>r. sim_input_rest s' = Some r))"
  using assms
proof (induction idxs arbitrary: s)
  case Nil
  then show ?case by simp
next
  case (Cons i idxs)
  from Cons.prems obtain s1 where
    1: "task_step run simulateBOLD g syn_act i s = Inr s1"
    and 2: "task_loop run simulateBOLD g syn_act idxs s1 = Inr s'"
    by (auto elim!: bind_res_InrE)
  from task_step_stage [OF 1] Cons.IH [OF 2] show ?case by simp
qed


lemma generate_single_block_args:
  assumes "block_args s = a"
  shows "generate_single_block run s Cmat duration activity_flag a_s_rate syn_act
         = generate_single_block (\<lambda>x. run a) s Cmat duration activity_flag a_s_rate syn_act"
proof -
  have 1: "run_block run (block_args s) Cmat duration (sim_store s) (sim_wc s)
           = run_block (\<lambda>x. run a) (block_args s) Cmat duration (sim_store s) (sim_wc s)"
    using assms by (simp add: run_block_def)
  show ?thesis unfolding generate_single_block_def 1 ..
qed

lemma generate_first_rest_args:
  assumes "block_args s = a"
  shows "generate_first_rest run s activity_flag a_s_rate syn_act
         = generate_first_rest (\<lambda>x. run a) s activity_flag a_s_rate syn_act"
proof -
  have 1: "\<And>c d. generate_single_block run s c d activity_flag a_s_rate syn_act
           = generate_single_block (\<lambda>x. run a) s c d activity_flag a_s_rate syn_act"
    using assms by (rule generate_single_block_args)
  show ?thesis unfolding generate_first_rest_def 1 ..
qed

lemma generate_last_rest_args:
  assumes "block_args s = a"
  shows "generate_last_rest run s activity_flag a_s_rate syn_act
         = generate_last_rest (\<lambda>x. run a) s activity_flag a_s_rate syn_act"
proof -
  have 1: "\<And>c d. generate_single_block run s c d activity_flag a_s_rate syn_act
           = generate_single_block (\<lambda>x. run a) s c d activity_flag a_s_rate syn_act"
    using assms by (rule generate_single_block_args)
  show ?thesis unfolding generate_last_rest_def 1 ..
qed

lemma following_rest_args:
  assumes "block_args s = a"
  shows "following_rest run simulateBOLD g syn_act i onset_time duration s
         = following_rest (\<lambda>x. run a) simulateBOLD g syn_act i onset_time duration s"
proof -
  have 1: "\<And>c d. generate_single_block run s c d (g_activity g) (g_a_s_rate g) syn_act
           = generate_single_block (\<lambda>x. run a) s c d (g_activity g) (g_a_s_rate g) syn_act"
    using assms by (rule generate_single_block_args)
  have 2: "generate_last_rest run s (g_activity g) (g_a_s_rate g) syn_act
           = generate_last_rest (\<lambda>x. run a) s (g_activity g) (g_a_s_rate g) syn_act"
    using assms by (rule generate_last_rest_args)
  show ?thesis unfolding following_rest_def 1 2 ..
qed

lemma task_step_args:
  assumes a: "block_args s = a"
  shows "task_step run simulateBOLD g syn_act i s = task_step (\<lambda>x. run a) simulateBOLD g syn_act i s"
  unfolding task_step_def
proof (intro bind_res_cong_Inr refl)
  fix name c onset_time duration
  show "generate_single_block run s c duration (g_activity g) (g_a_s_rate g) syn_act
        = generate_single_block (\<lambda>x. run a) s c duration (g_activity g) (g_a_s_rate g) syn_act"
    using a by (rule generate_single_block_args)
next
  fix name c onset_time duration s1 s2 s3
  assume 1: "generate_single_block (\<lambda>x. run a) s c duration (g_activity g) (g_a_s_rate g) syn_act
             = Inr s1"
    and 2: "bold_after_block simulateBOLD g False s1 = Inr s2"
    and 3: "record_interval s2 name onset_time (onset_time + duration) = Inr s3"
  from generate_single_block_effect [OF 1] bold_after_block_effect [OF 2]
    record_interval_effect [OF 3] a
  have "block_args s3 = a" by auto
  then show "following_rest run simulateBOLD g syn_act i onset_time duration s3
             = following_rest (\<lambda>x. run a) simulateBOLD g syn_act i onset_time duration s3"
    by (rule following_rest_args)
qed

lemma task_loop_args:
  assumes "block_args s = a"
  shows "task_loop run simulateBOLD g syn_act idxs s
         = task_loop (\<lambda>x. run a) simulateBOLD g syn_act idxs s"
  using assms
proof (induction idxs arbitrary: s)
  case Nil
  then show ?case by simp
next
  case (Cons i idxs)
  show ?case
    unfolding task_loop.simps
  proof (rule bind_res_cong_Inr)
    show "task_step run simulateBOLD g syn_act i s
          = task_step (\<lambda>x. run a) simulateBOLD g syn_act i s"
      using Cons.prems by (rule task_step_args)
  next
    fix s1
    assume "task_step (\<lambda>x. run a) simulateBOLD g syn_act i s = Inr s1"
    from task_step_effect [OF this] Cons.prems have "block_args s1 = a" by simp
    then show "task_loop run simulateBOLD g syn_act idxs s1
               = task_loop (\<lambda>x. run a) simulateBOLD g syn_act idxs s1"
      by (rule Cons.IH)
  qed
qed

lemma run_blocks_args:
  assumes a: "block_args s = a"
  shows "run_blocks run simulateBOLD g s = run_blocks (\<lambda>x. run a) simulateBOLD g s"
  unfolding run_blocks_def Let_def
proof (intro bind_res_cong_Inr refl)
  show "generate_first_rest run s (g_activity g) (g_a_s_rate g) (g_output_activation g \<noteq> ''exc'')
        = generate_first_rest (\<lambda>x. run a) s (g_activity g) (g_a_s_rate g)
            (g_output_activation g \<noteq> ''exc'')"
    using a by (rule generate_first_rest_args)
next
  fix c s1 s2
  assume 1: "generate_first_rest (\<lambda>x. run a) s (g_activity g) (g_a_s_rate g)
               (g_output_activation g \<noteq> ''exc'') = Inr s1"
    and 2: "seed_bold simulateBOLD g c s1 = Inr s2"
  from generate_first_rest_effect [OF 1] seed_bold_effect [OF 2] a
  have "block_args s2 = a" by simp
  then show "task_loop run simulateBOLD g (g_output_activation g \<noteq> ''exc'')
               [0 ..< length (sim_onset_time_list s)] s2
             = task_loop (\<lambda>x. run a) simulateBOLD g (g_output_activation g \<noteq> ''exc'')
               [0 ..< length (sim_onset_time_list s)] s2"
    by (rule task_loop_args)
qed


lemma HRF_init_settings:
  assumes "HRF_init n dt tr ni nm fx = Inr h"
  shows "hrf_N h = n \<and> hrf_dt h = dt \<and> hrf_TR h = tr \<and> hrf_normalize_input h = ni
       \<and> hrf_normalize_max h = nm \<and> hrf_fix h = fx"
  using assms unfolding HRF_init_def by (auto elim!: bind_res_InrE)

lemma configure_chunkwise:
  "sim_output_activation (snd (configure (g\<lparr>g_bold_chunkwise := True\<rparr>) s))
     = Some (g_output_activation g)
   \<and> sim_fix_bold (snd (configure (g\<lparr>g_bold_chunkwise := True\<rparr>) s)) = Some (g_fix_bold g)
   \<and> block_args (snd (configure (g\<lparr>g_bold_chunkwise := True\<rparr>) s))
       = \<lparr>r_append_outputs = False, r_bold = False, r_continue_run = True, r_chunkwise = False\<rparr>
   \<and> sim_wc (snd (configure (g\<lparr>g_bold_chunkwise := True\<rparr>) s)) = sim_wc s
   \<and> sim_onset_time_list (snd (configure (g\<lparr>g_bold_chunkwise := True\<rparr>) s))
       = sim_onset_time_list s"
  by (simp add: configure_def block_args_def Let_def)

lemma seed_bold_chunkwise:
  assumes "sim_output_activation s = Some ty" and "sim_fix_bold s = Some fx"
  shows "bind_res (seed_bold simulateBOLD (g\<lparr>g_bold_chunkwise := True\<rparr>) chunksize s) k
         = bind_res (py_getitem (wc_outputs (sim_wc s)) ''exc'') (\<lambda>e.
             if real (length e) < chunksize then Inl first_rest_error
             else bind_res (generate_bold_chunkwise simulateBOLD s (g_TR g) ty
                              (g_normalize_max g) True fx) k)"
  using assms
  by (cases "py_getitem (wc_outputs (sim_wc s)) ''exc''")
     (simp_all add: seed_bold_def bold_after_block_def bind_res_simps)

lemma task_step_chunkwise:
  assumes ty: "sim_output_activation t = Some ty" and fx: "sim_fix_bold t = Some fx"
  shows "task_step run simulateBOLD (g\<lparr>g_bold_chunkwise := True\<rparr>) syn_act i t
         = bind_res (py_index (sim_task_name_list t) i) (\<lambda>task_name.
           bind_res (py_getitem (sim_Wij_task_dict t) task_name) (\<lambda>Cmat.
           bind_res (py_index (sim_onset_time_list t) i) (\<lambda>onset_time.
           bind_res (py_index (sim_duration_list t) i) (\<lambda>duration.
           bind_res (generate_single_block run t Cmat duration (g_activity g) (g_a_s_rate g)
                       syn_act) (\<lambda>s1.
           bind_res (generate_bold_chunkwise simulateBOLD s1 (g_TR g) ty (g_normalize_max g)
                       False fx) (\<lambda>s2.
           bind_res (record_interval s2 task_name onset_time (onset_time + duration)) (\<lambda>s3.
           bind_res (following_rest run simulateBOLD (g\<lparr>g_bold_chunkwise := True\<rparr>) syn_act i
                       onset_time duration s3) (\<lambda>s4.
             Inr (clear_buffers (g_clear_raw g) s4)))))))))"
  unfolding task_step_def
proof (intro bind_res_cong_Inr refl)
  fix name c onset_time duration
  show "generate_single_block run t c duration (g_activity (g\<lparr>g_bold_chunkwise := True\<rparr>))
          (g_a_s_rate (g\<lparr>g_bold_chunkwise := True\<rparr>)) syn_act
        = generate_single_block run t c duration (g_activity g) (g_a_s_rate g) syn_act"
    by simp
next
  fix name c onset_time duration s1
  assume "generate_single_block run t c duration (g_activity g) (g_a_s_rate g) syn_act = Inr s1"
  from generate_single_block_effect [OF this] ty fx
  show "bold_after_block simulateBOLD (g\<lparr>g_bold_chunkwise := True\<rparr>) False s1
        = generate_bold_chunkwise simulateBOLD s1 (g_TR g) ty (g_normalize_max g) False fx"
    by (simp add: bold_after_block_def)
next
  fix s4
  show "Inr (clear_buffers (g_clear_raw (g\<lparr>g_bold_chunkwise := True\<rparr>)) s4)
        = Inr (clear_buffers (g_clear_raw g) s4)"
    by simp
qed

lemma following_rest_chunkwise:
  assumes ty: "sim_output_activation t = Some ty" and fx: "sim_fix_bold t = Some fx"
  shows "following_rest run simulateBOLD (g\<lparr>g_bold_chunkwise := True\<rparr>) syn_act i onset_time
           duration t
         = (if int i < int (length (sim_onset_time_list t)) - 1 then
              bind_res (py_index (sim_onset_time_list t) (i + 1)) (\<lambda>onset_next.
                if 0 < onset_next - onset_time - duration then
                  bind_res (generate_single_block run t (sim_Wij_rest t)
                              (onset_next - onset_time - duration) (g_activity g) (g_a_s_rate g)
                              syn_act) (\<lambda>s1.
                  bind_res (generate_bold_chunkwise simulateBOLD s1 (g_TR g) ty
                              (g_normalize_max g) False fx) (\<lambda>s2.
                    record_interval s2 ''Rest'' (onset_time + duration) onset_next))
                else Inr t)
            else
              bind_res (generate_last_rest run t (g_activity g) (g_a_s_rate g) syn_act) (\<lambda>s1.
                generate_bold_chunkwise simulateBOLD s1 (g_TR g) ty (g_normalize_max g) False fx))"
proof -
  have site: "bold_after_block simulateBOLD (g\<lparr>g_bold_chunkwise := True\<rparr>) False s1
        = generate_bold_chunkwise simulateBOLD s1 (g_TR g) ty (g_normalize_max g) False fx"
    if "sim_output_activation s1 = Some ty" "sim_fix_bold s1 = Some fx" for s1
    using that by (simp add: bold_after_block_def)
  have last: "bind_res (generate_last_rest run t (g_activity g) (g_a_s_rate g) syn_act)
                (bold_after_block simulateBOLD (g\<lparr>g_bold_chunkwise := True\<rparr>) False)
              = bind_res (generate_last_rest run t (g_activity g) (g_a_s_rate g) syn_act) (\<lambda>s1.
                  generate_bold_chunkwise simulateBOLD s1 (g_TR g) ty (g_normalize_max g) False fx)"
  proof (intro bind_res_cong_Inr refl)
    fix s1 assume "generate_last_rest run t (g_activity g) (g_a_s_rate g) syn_act = Inr s1"
    from generate_last_rest_effect [OF this] ty fx
    show "bold_after_block simulateBOLD (g\<lparr>g_bold_chunkwise := True\<rparr>) False s1
          = generate_bold_chunkwise simulateBOLD s1 (g_TR g) ty (g_normalize_max g) False fx"
      by (intro site) simp_all
  qed
  have gap: "bind_res (generate_single_block run t (sim_Wij_rest t) d (g_activity g)
                         (g_a_s_rate g) syn_act) (\<lambda>s1.
               bind_res (bold_after_block simulateBOLD (g\<lparr>g_bold_chunkwise := True\<rparr>) False s1)
                 (\<lambda>s2. record_interval s2 ''Rest'' x y))
             = bind_res (generate_single_block run t (sim_Wij_rest t) d (g_activity g)
                         (g_a_s_rate g) syn_act) (\<lambda>s1.
               bind_res (generate_bold_chunkwise simulateBOLD s1 (g_TR g) ty (g_normalize_max g)
                           False fx)
                 (\<lambda>s2. record_interval s2 ''Rest'' x y))" for d x y
  proof (intro bind_res_cong_Inr refl)
    fix s1 assume "generate_single_block run t (sim_Wij_rest t) d (g_activity g) (g_a_s_rate g)
                     syn_act = Inr s1"
    from generate_single_block_effect [OF this] ty fx
    show "bold_after_block simulateBOLD (g\<lparr>g_bold_chunkwise := True\<rparr>) False s1
          = generate_bold_chunkwise simulateBOLD s1 (g_TR g) ty (g_normalize_max g) False fx"
      by (intro site) simp_all
  qed
  show ?thesis
    unfolding following_rest_def Let_def
    by (simp add: last gap cong: if_cong)
qed

text \<open>
  C7 (chunkwise generation requested together with the built-in mode is not an
  error: a warning is printed, the built-in mode is switched off and the run
  goes on chunkwise). The run that starts with \<open>bold\<close> set prints the warning and
  is from there on the run that starts with \<open>bold\<close> unset, which prints nothing.
  After the set-up \<open>bold\<close> and \<open>chunkwise\<close> are unset, and the run is the one in
  which every call of the model's \<^verbatim>\<open>run\<close> gets \<^verbatim>\<open>bold=False\<close>. The run then is:
  the first rest block, the check of its length, the first call of
  \<^verbatim>\<open>generate_bold_chunkwise\<close>, which creates the stage, and the task loop; in
  every pass of the loop the task block, the rest block of a positive gap and
  the last rest block are each followed by a call of
  \<^verbatim>\<open>generate_bold_chunkwise\<close> with the arguments of the run. A run that returns
  leaves the switches unset, the stage created with the repetition time, the
  normalisation and the \<open>fix\<close> flag of the run, and a leftover buffer.
\<close>

theorem C7_chunkwise_takes_precedence:
  "generate_full_series run simulateBOLD (g\<lparr>g_bold_chunkwise := True\<rparr>) (s\<lparr>sim_bold := True\<rparr>)
     = ([''Options bold_chunkwise incompatible with bold True, set to False''],
        snd (generate_full_series run simulateBOLD (g\<lparr>g_bold_chunkwise := True\<rparr>)
               (s\<lparr>sim_bold := False\<rparr>)))
   \<and> fst (generate_full_series run simulateBOLD (g\<lparr>g_bold_chunkwise := True\<rparr>)
          (s\<lparr>sim_bold := False\<rparr>)) = []
   \<and> sim_bold (snd (configure (g\<lparr>g_bold_chunkwise := True\<rparr>) (s\<lparr>sim_bold := True\<rparr>))) = False
   \<and> sim_chunkwise (snd (configure (g\<lparr>g_bold_chunkwise := True\<rparr>) (s\<lparr>sim_bold := True\<rparr>)))
       = False
   \<and> block_args (snd (configure (g\<lparr>g_bold_chunkwise := True\<rparr>) (s\<lparr>sim_bold := True\<rparr>)))
       = \<lparr>r_append_outputs = False, r_bold = False, r_continue_run = True, r_chunkwise = False\<rparr>
   \<and> snd (generate_full_series run simulateBOLD (g\<lparr>g_bold_chunkwise := True\<rparr>)
          (s\<lparr>sim_bold := True\<rparr>))
       = snd (generate_full_series
                (\<lambda>a. run \<lparr>r_append_outputs = False, r_bold = False, r_continue_run = True,
                            r_chunkwise = False\<rparr>)
                simulateBOLD (g\<lparr>g_bold_chunkwise := True\<rparr>) (s\<lparr>sim_bold := True\<rparr>))
   \<and> snd (generate_full_series run simulateBOLD (g\<lparr>g_bold_chunkwise := True\<rparr>)
          (s\<lparr>sim_bold := True\<rparr>))
       = bind_res (py_div (g_TR g * 1000) (p_dt (wc_params (sim_wc s)))) (\<lambda>chunksize.
         bind_res (generate_first_rest run
                     (snd (configure (g\<lparr>g_bold_chunkwise := True\<rparr>) (s\<lparr>sim_bold := True\<rparr>)))
                     (g_activity g) (g_a_s_rate g) (g_output_activation g \<noteq> ''exc'')) (\<lambda>s1.
         bind_res (py_getitem (wc_outputs (sim_wc s1)) ''exc'') (\<lambda>e.
           if real (length e) < chunksize then Inl first_rest_error
           else bind_res (generate_bold_chunkwise simulateBOLD s1 (g_TR g)
                            (g_output_activation g) (g_normalize_max g) True (g_fix_bold g))
                  (task_loop run simulateBOLD (g\<lparr>g_bold_chunkwise := True\<rparr>)
                     (g_output_activation g \<noteq> ''exc'')
                     [0 ..< length (sim_onset_time_list s)]))))
   \<and> (\<forall>i t. sim_output_activation t = Some (g_output_activation g)
          \<longrightarrow> sim_fix_bold t = Some (g_fix_bold g)
          \<longrightarrow> task_step run simulateBOLD (g\<lparr>g_bold_chunkwise := True\<rparr>)
                (g_output_activation g \<noteq> ''exc'') i t
              = bind_res (py_index (sim_task_name_list t) i) (\<lambda>task_name.
                bind_res (py_getitem (sim_Wij_task_dict t) task_name) (\<lambda>Cmat.
                bind_res (py_index (sim_onset_time_list t) i) (\<lambda>onset_time.
                bind_res (py_index (sim_duration_list t) i) (\<lambda>duration.
                bind_res (generate_single_block run t Cmat duration (g_activity g) (g_a_s_rate g)
                            (g_output_activation g \<noteq> ''exc'')) (\<lambda>s1.
                bind_res (generate_bold_chunkwise simulateBOLD s1 (g_TR g)
                            (g_output_activation g) (g_normalize_max g) False (g_fix_bold g))
                  (\<lambda>s2.
                bind_res (record_interval s2 task_name onset_time (onset_time + duration))
                  (\<lambda>s3.
                bind_res (following_rest run simulateBOLD (g\<lparr>g_bold_chunkwise := True\<rparr>)
                            (g_output_activation g \<noteq> ''exc'') i onset_time duration s3) (\<lambda>s4.
                  Inr (clear_buffers (g_clear_raw g) s4))))))))))
   \<and> (\<forall>i onset_time duration t. sim_output_activation t = Some (g_output_activation g)
          \<longrightarrow> sim_fix_bold t = Some (g_fix_bold g)
          \<longrightarrow> following_rest run simulateBOLD (g\<lparr>g_bold_chunkwise := True\<rparr>)
                (g_output_activation g \<noteq> ''exc'') i onset_time duration t
              = (if int i < int (length (sim_onset_time_list t)) - 1 then
                   bind_res (py_index (sim_onset_time_list t) (i + 1)) (\<lambda>onset_next.
                     if 0 < onset_next - onset_time - duration then
                       bind_res (generate_single_block run t (sim_Wij_rest t)
                                   (onset_next - onset_time - duration) (g_activity g)
                                   (g_a_s_rate g) (g_output_activation g \<noteq> ''exc'')) (\<lambda>s1.
                       bind_res (generate_bold_chunkwise simulateBOLD s1 (g_TR g)
                                   (g_output_activation g) (g_normalize_max g) False
                                   (g_fix_bold g)) (\<lambda>s2.
                         record_interval s2 ''Rest'' (onset_time + duration) onset_next))
                     else Inr t)
                 else
                   bind_res (generate_last_rest run t (g_activity g) (g_a_s_rate g)
                               (g_output_activation g \<noteq> ''exc'')) (\<lambda>s1.
                     generate_bold_chunkwise simulateBOLD s1 (g_TR g) (g_output_activation g)
                       (g_normalize_max g) False (g_fix_bold g))))
   \<and> (\<forall>s'. snd (generate_full_series run simulateBOLD (g\<lparr>g_bold_chunkwise := True\<rparr>)
                  (s\<lparr>sim_bold := True\<rparr>)) = Inr s'
          \<longrightarrow> block_args s'
                = \<lparr>r_append_outputs = False, r_bold = False, r_continue_run = True,
                   r_chunkwise = False\<rparr>
              \<and> sim_output_activation s' = Some (g_output_activation g)
              \<and> sim_fix_bold s' = Some (g_fix_bold g)
              \<and> (\<exists>h. sim_hrf s' = Some h \<and> hrf_TR h = g_TR g \<and> hrf_normalize_input h
                     \<and> hrf_normalize_max h = g_normalize_max g \<and> hrf_fix h = g_fix_bold g)
              \<and> (\<exists>r. sim_input_rest s' = Some r))"
proof -
  let ?g = "g\<lparr>g_bold_chunkwise := True\<rparr>"
  let ?sc = "snd (configure ?g (s\<lparr>sim_bold := True\<rparr>))"
  let ?a = "\<lparr>r_append_outputs = False, r_bold = False, r_continue_run = True, r_chunkwise = False\<rparr>"
  let ?syn = "g_output_activation g \<noteq> ''exc''"
  let ?idxs = "[0 ..< length (sim_onset_time_list s)]"
  note cfg = configure_chunkwise [of g "s\<lparr>sim_bold := True\<rparr>"]
  have gfs: "\<And>r. snd (generate_full_series r simulateBOLD ?g (s\<lparr>sim_bold := True\<rparr>))
             = run_blocks r simulateBOLD ?g ?sc"
    by (simp add: generate_full_series_def split_beta)
  have start: "generate_full_series run simulateBOLD ?g (s\<lparr>sim_bold := True\<rparr>)
     = ([''Options bold_chunkwise incompatible with bold True, set to False''],
        snd (generate_full_series run simulateBOLD ?g (s\<lparr>sim_bold := False\<rparr>)))
   \<and> fst (generate_full_series run simulateBOLD ?g (s\<lparr>sim_bold := False\<rparr>)) = []
   \<and> sim_bold ?sc = False \<and> sim_chunkwise ?sc = False"
    by (simp add: generate_full_series_def configure_def Let_def)
  have forced: "run_blocks run simulateBOLD ?g ?sc = run_blocks (\<lambda>x. run ?a) simulateBOLD ?g ?sc"
    using cfg by (intro run_blocks_args) simp
  have eq: "run_blocks run simulateBOLD ?g ?sc
       = bind_res (py_div (g_TR g * 1000) (p_dt (wc_params (sim_wc s)))) (\<lambda>chunksize.
         bind_res (generate_first_rest run ?sc (g_activity g) (g_a_s_rate g) ?syn) (\<lambda>s1.
         bind_res (py_getitem (wc_outputs (sim_wc s1)) ''exc'') (\<lambda>e.
           if real (length e) < chunksize then Inl first_rest_error
           else bind_res (generate_bold_chunkwise simulateBOLD s1 (g_TR g)
                            (g_output_activation g) (g_normalize_max g) True (g_fix_bold g))
                  (task_loop run simulateBOLD ?g ?syn ?idxs))))"
    unfolding run_blocks_def Let_def
  proof (intro bind_res_cong_Inr)
    show "(if g_bold_chunkwise ?g
           then py_div (g_TR ?g * 1000) (p_dt (wc_params (sim_wc ?sc))) else Inr 0)
          = py_div (g_TR g * 1000) (p_dt (wc_params (sim_wc s)))"
      using cfg by simp
  next
    fix c
    show "generate_first_rest run ?sc (g_activity ?g) (g_a_s_rate ?g) (g_output_activation ?g \<noteq> ''exc'')
          = generate_first_rest run ?sc (g_activity g) (g_a_s_rate g) ?syn"
      by simp
  next
    fix c s1
    assume 1: "generate_first_rest run ?sc (g_activity g) (g_a_s_rate g) ?syn = Inr s1"
    from generate_first_rest_effect [OF 1] cfg
    have "sim_output_activation s1 = Some (g_output_activation g)"
      "sim_fix_bold s1 = Some (g_fix_bold g)" by simp_all
    from seed_bold_chunkwise [OF this] cfg
    show "bind_res (seed_bold simulateBOLD ?g c s1)
            (task_loop run simulateBOLD ?g (g_output_activation ?g \<noteq> ''exc'')
               [0 ..< length (sim_onset_time_list ?sc)])
          = bind_res (py_getitem (wc_outputs (sim_wc s1)) ''exc'') (\<lambda>e.
              if real (length e) < c then Inl first_rest_error
              else bind_res (generate_bold_chunkwise simulateBOLD s1 (g_TR g)
                               (g_output_activation g) (g_normalize_max g) True (g_fix_bold g))
                     (task_loop run simulateBOLD ?g ?syn ?idxs))"
      by simp
  qed
  note step = task_step_chunkwise [of _ "g_output_activation g" "g_fix_bold g" run simulateBOLD g ?syn]
    and fol = following_rest_chunkwise [of _ "g_output_activation g" "g_fix_bold g" run simulateBOLD g ?syn]
  have fin: "block_args s' = ?a
              \<and> sim_output_activation s' = Some (g_output_activation g)
              \<and> sim_fix_bold s' = Some (g_fix_bold g)
              \<and> (\<exists>h. sim_hrf s' = Some h \<and> hrf_TR h = g_TR g \<and> hrf_normalize_input h
                     \<and> hrf_normalize_max h = g_normalize_max g \<and> hrf_fix h = g_fix_bold g)
              \<and> (\<exists>r. sim_input_rest s' = Some r)"
    if r: "run_blocks run simulateBOLD ?g ?sc = Inr s'" for s'
  proof -
    from r [unfolded eq] obtain c s1 e s2 where
      1: "generate_first_rest run ?sc (g_activity g) (g_a_s_rate g) ?syn = Inr s1"
      and 2: "generate_bold_chunkwise simulateBOLD s1 (g_TR g) (g_output_activation g)
                (g_normalize_max g) True (g_fix_bold g) = Inr s2"
      and 3: "task_loop run simulateBOLD ?g ?syn ?idxs s2 = Inr s'"
      by (auto split: if_splits elim!: bind_res_InrE)
    note e1 = generate_first_rest_effect [OF 1] and e2 = generate_bold_chunkwise_effect [OF 2]
      and e3 = task_loop_effect [OF 3]
    from generate_bold_chunkwise_first_stage [OF 2] obtain h0 h2 where
      h0: "HRF_init (p_N (wc_params (sim_wc s1))) (p_dt (wc_params (sim_wc s1))) (g_TR g) True
             (g_normalize_max g) (g_fix_bold g) = Inr h0"
      and h2: "sim_hrf s2 = Some h2" "stage_settings h2 = stage_settings h0"
      and r2: "\<exists>r. sim_input_rest s2 = Some r"
      by blast
    from task_loop_stage [OF 3] h2 r2 obtain h where
      h: "sim_hrf s' = Some h" "stage_settings h = stage_settings h0"
      and r': "\<exists>r. sim_input_rest s' = Some r"
      by auto
    from h HRF_init_settings [OF h0]
    have "hrf_TR h = g_TR g \<and> hrf_normalize_input h
        \<and> hrf_normalize_max h = g_normalize_max g \<and> hrf_fix h = g_fix_bold g"
      by (simp add: stage_settings_def)
    with h r' e1 e2 e3 cfg show ?thesis by simp
  qed
  show ?thesis
    unfolding gfs
  proof (intro conjI allI impI)
    show "task_step run simulateBOLD ?g ?syn i t
              = bind_res (py_index (sim_task_name_list t) i) (\<lambda>task_name.
                bind_res (py_getitem (sim_Wij_task_dict t) task_name) (\<lambda>Cmat.
                bind_res (py_index (sim_onset_time_list t) i) (\<lambda>onset_time.
                bind_res (py_index (sim_duration_list t) i) (\<lambda>duration.
                bind_res (generate_single_block run t Cmat duration (g_activity g) (g_a_s_rate g)
                            ?syn) (\<lambda>s1.
                bind_res (generate_bold_chunkwise simulateBOLD s1 (g_TR g)
                            (g_output_activation g) (g_normalize_max g) False (g_fix_bold g))
                  (\<lambda>s2.
                bind_res (record_interval s2 task_name onset_time (onset_time + duration))
                  (\<lambda>s3.
                bind_res (following_rest run simulateBOLD ?g ?syn i onset_time duration s3) (\<lambda>s4.
                  Inr (clear_buffers (g_clear_raw g) s4)))))))))"
      if "sim_output_activation t = Some (g_output_activation g)"
        and "sim_fix_bold t = Some (g_fix_bold g)" for i t
      using that by (rule step)
  next
    show "following_rest run simulateBOLD ?g ?syn i onset_time duration t
              = (if int i < int (length (sim_onset_time_list t)) - 1 then
                   bind_res (py_index (sim_onset_time_list t) (i + 1)) (\<lambda>onset_next.
                     if 0 < onset_next - onset_time - duration then
                       bind_res (generate_single_block run t (sim_Wij_rest t)
                                   (onset_next - onset_time - duration) (g_activity g)
                                   (g_a_s_rate g) ?syn) (\<lambda>s1.
                       bind_res (generate_bold_chunkwise simulateBOLD s1 (g_TR g)
                                   (g_output_activation g) (g_normalize_max g) False
                                   (g_fix_bold g)) (\<lambda>s2.
                         record_interval s2 ''Rest'' (onset_time + duration) onset_next))
                     else Inr t)
                 else
                   bind_res (generate_last_rest run t (g_activity g) (g_a_s_rate g) ?syn) (\<lambda>s1.
                     generate_bold_chunkwise simulateBOLD s1 (g_TR g) (g_output_activation g)
                       (g_normalize_max g) False (g_fix_bold g)))"
      if "sim_output_activation t = Some (g_output_activation g)"
        and "sim_fix_bold t = Some (g_fix_bold g)" for i onset_time duration t
      using that by (rule fol)
  qed (use start cfg forced eq fin in simp_all)
qed

theorem C7_chunkwise_takes_precedence_witness:
  "\<exists>s' h.
      generate_full_series example_run example_integrator example_args
        (example_sim\<lparr>sim_bold := True\<rparr>)
        = ([''Options bold_chunkwise incompatible with bold True, set to False''], Inr s')
    \<and> generate_full_series example_run example_integrator example_args example_sim = ([], Inr s')
    \<and> sim_bold s' = False \<and> sim_chunkwise s' = False
    \<and> sim_hrf s' = Some h \<and> hrf_TR h = 2 \<and> hrf_idxLastT h = 18
    \<and> map_option length (sim_BOLD s') = Some 9
    \<and> map_option length (sim_input_rest s') = Some 1
    \<and> wc_internal (sim_wc s') = 19
    \<and> following_rest example_run example_integrator example_args True 0 2 3 s'
        = bind_res (generate_last_rest example_run s' True 2 True)
            (\<lambda>s1. generate_bold_chunkwise example_integrator s1 2 ''syn_act'' 2 False True)"
proof -
  let ?r = "snd (generate_full_series example_run example_integrator example_args
                   (example_sim\<lparr>sim_bold := True\<rparr>))"
  have g: "example_args\<lparr>g_bold_chunkwise := True\<rparr> = example_args"
    "g_TR example_args = 2" "g_output_activation example_args = ''syn_act''"
    "g_normalize_max example_args = 2" "g_fix_bold example_args = True"
    "g_activity example_args = True" "g_a_s_rate example_args = 2"
    by (simp_all add: example_args_def)
  have b: "example_sim\<lparr>sim_bold := False\<rparr> = example_sim"
    by (simp add: example_sim_def)
  have ev: "map_sum id (\<lambda>r. (map_option hrf_idxLastT (sim_hrf r), map_option length (sim_BOLD r),
                             map_option length (sim_input_rest r), wc_internal (sim_wc r),
                             length (sim_onset_time_list r))) ?r
            = Inr (Some 18, Some 9, Some 1, 19, 1)"
    by code_simp
  then obtain s' where s': "?r = Inr s'"
    and v: "map_option hrf_idxLastT (sim_hrf s') = Some 18"
      "map_option length (sim_BOLD s') = Some 9"
      "map_option length (sim_input_rest s') = Some 1"
      "wc_internal (sim_wc s') = 19"
      "length (sim_onset_time_list s') = 1"
    by (cases ?r) auto
  note t = C7_chunkwise_takes_precedence [of example_run example_integrator example_args example_sim,
      unfolded g b]
  note c1 = t [THEN conjunct1] and c2 = t [THEN conjunct2, THEN conjunct1]
    and fin = t [THEN conjunct2, THEN conjunct2, THEN conjunct2, THEN conjunct2, THEN conjunct2,
      THEN conjunct2, THEN conjunct2, THEN conjunct2, THEN conjunct2, rule_format, OF s']
  from c1 c2 s' have 1: "generate_full_series example_run example_integrator example_args
        (example_sim\<lparr>sim_bold := True\<rparr>)
        = ([''Options bold_chunkwise incompatible with bold True, set to False''], Inr s')"
    and 2: "generate_full_series example_run example_integrator example_args example_sim
            = ([], Inr s')"
    by (simp_all add: prod_eq_iff)
  from fin have 3: "block_args s' = \<lparr>r_append_outputs = False, r_bold = False,
                        r_continue_run = True, r_chunkwise = False\<rparr>"
    and 4: "sim_output_activation s' = Some ''syn_act''" "sim_fix_bold s' = Some True"
    and 5: "\<exists>h. sim_hrf s' = Some h \<and> hrf_TR h = 2"
    by auto
  from 3 have 6: "sim_bold s' = False" "sim_chunkwise s' = False"
    by (simp_all add: block_args_def)
  note fr = t [THEN conjunct2, THEN conjunct2, THEN conjunct2, THEN conjunct2, THEN conjunct2,
      THEN conjunct2, THEN conjunct2, THEN conjunct2, THEN conjunct1, rule_format, where t = s' and i = 0 and onset_time = 2 and duration = 3]
  from fr 4 v s' have 7: "following_rest example_run example_integrator example_args True 0 2 3 s'
        = bind_res (generate_last_rest example_run s' True 2 True)
            (\<lambda>s1. generate_bold_chunkwise example_integrator s1 2 ''syn_act'' 2 False True)"
    by simp
  from 5 v s' obtain h where "sim_hrf s' = Some h" "hrf_TR h = 2" "hrf_idxLastT h = 18"
    by auto
  with 1 2 6 7 v s' show ?thesis by auto
qed

end
